theory Spec2Isabelle
  imports Complex_Main
begin

section \<open>Data model\<close>

text \<open>
  A game record is a JSON object. The search reads three of its keys; a key that is
  absent is \<open>None\<close>. The values that are present are taken to be strings.
\<close>

record game =
  gameId :: "string option"
  timestamp :: "string option"
  serverSeed :: "string option"

text \<open>The fields of a \<open>datetime.datetime\<close> value that the search reads.\<close>

record datetime =
  dt_year :: nat
  dt_month :: nat
  dt_day :: nat
  dt_hour :: nat
  dt_minute :: nat
  dt_second :: nat
  dt_microsecond :: nat

text \<open>
  The library calls of the search, taken as parameters: the three \<open>hashlib\<close> digests
  (\<open>hashlib.md5(s.encode()).hexdigest()\<close> and its two siblings),
  \<open>datetime.fromisoformat\<close> (\<open>None\<close> where it raises \<open>ValueError\<close>), and
  \<open>int(dt.timestamp())\<close>, \<open>int(dt.timestamp() * 1000)\<close>, which depend on the local
  time zone and on floating point.
\<close>

record env =
  md5_hex :: "string \<Rightarrow> string"
  sha1_hex :: "string \<Rightarrow> string"
  sha256_hex :: "string \<Rightarrow> string"
  fromisoformat :: "string \<Rightarrow> datetime option"
  epoch_seconds :: "datetime \<Rightarrow> int"
  epoch_millis :: "datetime \<Rightarrow> int"

datatype hash_type = MD5 | SHA1 | SHA256

datatype match_type = Exact | Partial16

datatype error = ValueError

text \<open>One entry of \<open>found_patterns\<close>.\<close>

record pattern =
  pat_index :: nat
  pat_seed :: string
  pat_time_format :: string
  pat_secret :: string
  pat_salt_format :: string
  pat_input :: string
  pat_hash_type :: hash_type
  pat_match_type :: match_type

section \<open>Python strings and slices\<close>

text \<open>\<open>str(n)\<close> for a natural number and for an integer.\<close>

definition digit_char :: "nat \<Rightarrow> char" where
  "digit_char d = ''0123456789'' ! d"

fun str_nat :: "nat \<Rightarrow> string" where
  "str_nat n = (if n < 10 then [digit_char n] else str_nat (n div 10) @ [digit_char (n mod 10)])"

declare str_nat.simps [simp del]

definition str_int :: "int \<Rightarrow> string" where
  "str_int i = (if i < 0 then CHR ''-'' # str_nat (nat (- i)) else str_nat (nat i))"

text \<open>Zero padding on the left to a width, as \<open>strftime\<close> does for its numeric fields.\<close>

definition zfill :: "nat \<Rightarrow> string \<Rightarrow> string" where
  "zfill w s = replicate (w - length s) CHR ''0'' @ s"

text \<open>\<open>s.startswith(p)\<close> and \<open>sub in s\<close>.\<close>

definition startswith :: "string \<Rightarrow> string \<Rightarrow> bool" where
  "startswith s p = (take (length p) s = p)"

fun contains :: "string \<Rightarrow> string \<Rightarrow> bool" where
  "contains sub [] = (sub = [])"
| "contains sub (c # cs) = (startswith (c # cs) sub \<or> contains sub cs)"

text \<open>
  \<open>template.format(arg)\<close> for a template whose only replacement fields are \<open>{}\<close>: each
  is replaced by the argument. Every entry of \<open>salt_formats\<close> has exactly one.
\<close>

fun str_format :: "string \<Rightarrow> string \<Rightarrow> string" where
  "str_format [] a = []"
| "str_format [c] a = [c]"
| "str_format (c # d # cs) a =
     (if c = CHR ''{'' \<and> d = CHR ''}'' then a @ str_format cs a
      else c # str_format (d # cs) a)"

text \<open>
  A slice bound of Python: a negative bound counts from the end, and every bound is
  clamped to the list. \<open>xs[lo:hi]\<close> is \<open>py_slice xs lo hi\<close>; \<open>xs[:hi]\<close> starts at 0.
\<close>

definition slice_bound :: "nat \<Rightarrow> int \<Rightarrow> nat" where
  "slice_bound len i = (if i < 0 then nat (int len + i) else min len (nat i))"

definition py_slice :: "'a list \<Rightarrow> int \<Rightarrow> int \<Rightarrow> 'a list" where
  "py_slice xs lo hi =
     take (slice_bound (length xs) hi - slice_bound (length xs) lo)
          (drop (slice_bound (length xs) lo) xs)"

definition py_slice_to :: "'a list \<Rightarrow> int \<Rightarrow> 'a list" where
  "py_slice_to xs hi = take (slice_bound (length xs) hi) xs"

text \<open>\<open>self.games[:sample_size]\<close> and \<open>self.games[sample_size:sample_size+100]\<close>.\<close>

definition sample_slice :: "'a list \<Rightarrow> int \<Rightarrow> 'a list" where
  "sample_slice games sample_size = py_slice_to games sample_size"

definition validation_slice :: "'a list \<Rightarrow> int \<Rightarrow> 'a list" where
  "validation_slice games sample_size = py_slice games sample_size (sample_size + 100)"

text \<open>\<open>enumerate(xs)\<close>: every element with its position.\<close>

definition enumerate_list :: "'a list \<Rightarrow> (nat \<times> 'a) list" where
  "enumerate_list xs = zip [0..<length xs] xs"

section \<open>Candidate generation\<close>

text \<open>
  The tables of \<open>brute_force_seed_generation\<close>: the candidate secrets and the salt
  templates.
\<close>

definition common_secrets :: "string list" where
  "common_secrets =
     [''rugs.fun'', ''rugsfun'', ''rug'', ''rugpull'',
      ''crypto'', ''game'', ''seed'', ''random'',
      ''bitcoin'', ''ethereum'', ''secret'', ''provably-fair'']"

definition salt_formats :: "string list" where
  "salt_formats =
     [''{}'', ''{}_salt'', ''salt_{}'', ''{}_key'', ''key_{}'', ''{}_seed'', ''seed_{}'']"

text \<open>
  \<open>dt.strftime\<close> with the directives \<open>%m %d %H %M %S\<close> (two digits each, zero
  padded) and \<open>%Y\<close>. CPython hands \<open>%Y\<close> to the C library, and glibc prints the year
  without padding (\<open>999\<close> for the year 999; other C libraries print \<open>0999\<close>); the model
  follows glibc. From the year 1000 on there is no difference.
\<close>

definition strftime_Y :: "datetime \<Rightarrow> string" where
  "strftime_Y dt = str_nat (dt_year dt)"

definition two_digits :: "nat \<Rightarrow> string" where
  "two_digits n = zfill 2 (str_nat n)"

text \<open>
  The dictionary \<open>time_formats\<close>, in insertion order. Its twelve entries computed from
  the timestamp are \<open>time_encodings\<close>; the thirteenth is the \<open>gameId\<close> of \<open>game\<close>, or
  the empty string when that key is absent.
\<close>

definition time_encodings :: "env \<Rightarrow> datetime \<Rightarrow> (string \<times> string) list" where
  "time_encodings e dt =
     [(''epoch'', str_int (epoch_seconds e dt)),
      (''epoch_ms'', str_int (epoch_millis e dt)),
      (''date'', strftime_Y dt @ two_digits (dt_month dt) @ two_digits (dt_day dt)),
      (''time'', two_digits (dt_hour dt) @ two_digits (dt_minute dt) @ two_digits (dt_second dt)),
      (''datetime'', strftime_Y dt @ two_digits (dt_month dt) @ two_digits (dt_day dt)
                     @ two_digits (dt_hour dt) @ two_digits (dt_minute dt)
                     @ two_digits (dt_second dt)),
      (''year'', strftime_Y dt),
      (''month'', two_digits (dt_month dt)),
      (''day'', two_digits (dt_day dt)),
      (''hour'', two_digits (dt_hour dt)),
      (''minute'', two_digits (dt_minute dt)),
      (''second'', two_digits (dt_second dt)),
      (''microsecond'', str_nat (dt_microsecond dt))]"

definition game_id_value :: "game \<Rightarrow> string" where
  "game_id_value game = (case gameId game of Some g \<Rightarrow> g | None \<Rightarrow> [])"

definition time_formats :: "env \<Rightarrow> datetime \<Rightarrow> game \<Rightarrow> (string \<times> string) list" where
  "time_formats e dt game = time_encodings e dt @ [(''game_id'', game_id_value game)]"

text \<open>The four input orderings, in the order of the list \<open>test_inputs\<close>.\<close>

definition test_inputs :: "string \<Rightarrow> string \<Rightarrow> string list" where
  "test_inputs time_val salt = [time_val @ salt, salt @ time_val, time_val, salt]"

definition mk_pattern ::
  "nat \<Rightarrow> string \<Rightarrow> string \<Rightarrow> string \<Rightarrow> string \<Rightarrow> string \<Rightarrow> hash_type \<Rightarrow> match_type \<Rightarrow> pattern" where
  "mk_pattern i seed time_key secret salt_format test_input ht mt =
     \<lparr>pat_index = i, pat_seed = seed, pat_time_format = time_key, pat_secret = secret,
      pat_salt_format = salt_format, pat_input = test_input,
      pat_hash_type = ht, pat_match_type = mt\<rparr>"

text \<open>
  The body of the loop over \<open>test_inputs\<close>: the three digests and the chain of
  \<open>if\<close>/\<open>elif\<close> comparisons. It returns what the body appends to \<open>found_patterns\<close>.
\<close>

definition check_input ::
  "env \<Rightarrow> nat \<Rightarrow> string \<Rightarrow> string \<Rightarrow> string \<Rightarrow> string \<Rightarrow> string \<Rightarrow> pattern list" where
  "check_input e i seed time_key secret salt_format test_input =
     (let hash_md5 = md5_hex e test_input;
          hash_sha1 = sha1_hex e test_input;
          hash_sha256 = sha256_hex e test_input
      in if seed = hash_md5
           then [mk_pattern i seed time_key secret salt_format test_input MD5 Exact]
         else if seed = hash_sha1
           then [mk_pattern i seed time_key secret salt_format test_input SHA1 Exact]
         else if seed = hash_sha256
           then [mk_pattern i seed time_key secret salt_format test_input SHA256 Exact]
         else if startswith seed (take 16 hash_md5)
           then [mk_pattern i seed time_key secret salt_format test_input MD5 Partial16]
         else if startswith seed (take 16 hash_sha1)
           then [mk_pattern i seed time_key secret salt_format test_input SHA1 Partial16]
         else if startswith seed (take 16 hash_sha256)
           then [mk_pattern i seed time_key secret salt_format test_input SHA256 Partial16]
         else [])"

text \<open>The loops over the salt templates, the secrets and the entries of \<open>time_formats\<close>.\<close>

definition for_salt_format ::
  "env \<Rightarrow> nat \<Rightarrow> string \<Rightarrow> string \<Rightarrow> string \<Rightarrow> string \<Rightarrow> string \<Rightarrow> pattern list" where
  "for_salt_format e i seed time_key time_val secret salt_format =
     concat (map (check_input e i seed time_key secret salt_format)
                 (test_inputs time_val (str_format salt_format secret)))"

definition for_secret ::
  "env \<Rightarrow> string list \<Rightarrow> nat \<Rightarrow> string \<Rightarrow> string \<Rightarrow> string \<Rightarrow> string \<Rightarrow> pattern list" where
  "for_secret e salts i seed time_key time_val secret =
     concat (map (for_salt_format e i seed time_key time_val secret) salts)"

definition for_time_format ::
  "env \<Rightarrow> string list \<Rightarrow> string list \<Rightarrow> nat \<Rightarrow> string \<Rightarrow> string \<times> string \<Rightarrow> pattern list" where
  "for_time_format e secrets salts i seed kv =
     (if snd kv = [] then []
      else concat (map (for_secret e salts i seed (fst kv) (snd kv)) secrets))"

definition for_record ::
  "env \<Rightarrow> string list \<Rightarrow> string list \<Rightarrow> game \<Rightarrow> nat \<Rightarrow> string \<Rightarrow> datetime \<Rightarrow> pattern list" where
  "for_record e secrets salts game i seed dt =
     concat (map (for_time_format e secrets salts i seed) (time_formats e dt game))"

text \<open>
  The loop over \<open>enumerate(zip(timestamps, seeds))\<close>. A timestamp that
  \<open>fromisoformat\<close> rejects raises, and nothing catches it. The name \<open>game\<close> in the
  body is not bound by this loop: it is the variable of the extraction loop before it.
\<close>

fun generate_loop ::
  "env \<Rightarrow> string list \<Rightarrow> string list \<Rightarrow> game \<Rightarrow> nat \<Rightarrow> (string \<times> string) list
     \<Rightarrow> error + pattern list" where
  "generate_loop e secrets salts game i [] = Inr []"
| "generate_loop e secrets salts game i ((ts, seed) # rest) =
     (case fromisoformat e ts of
        None \<Rightarrow> Inl ValueError
      | Some dt \<Rightarrow>
          (case generate_loop e secrets salts game (Suc i) rest of
             Inl err \<Rightarrow> Inl err
           | Inr found \<Rightarrow> Inr (for_record e secrets salts game i seed dt @ found)))"

text \<open>
  The extraction loop: the records with both \<open>timestamp\<close> and \<open>serverSeed\<close> give the
  lists \<open>timestamps\<close> and \<open>seeds\<close>, here one list of pairs.
\<close>

definition has_both :: "game \<Rightarrow> bool" where
  "has_both game = (timestamp game \<noteq> None \<and> serverSeed game \<noteq> None)"

definition extract_pairs :: "game list \<Rightarrow> (string \<times> string) list" where
  "extract_pairs sample =
     map (\<lambda>game. (the (timestamp game), the (serverSeed game))) (filter has_both sample)"

text \<open>
  Candidate generation on a sample. After the extraction loop \<open>game\<close> is the last
  record of the sample; on an empty sample no loop body runs.
\<close>

definition candidate_generation ::
  "env \<Rightarrow> string list \<Rightarrow> string list \<Rightarrow> game list \<Rightarrow> error + pattern list" where
  "candidate_generation e secrets salts sample =
     (if sample = [] then Inr []
      else generate_loop e secrets salts (last sample) 0 (extract_pairs sample))"

section \<open>Hold-out validation\<close>

text \<open>The key of a pattern group, and the grouping dictionary in insertion order.\<close>

type_synonym pattern_key = "string \<times> string \<times> string \<times> hash_type \<times> match_type"

definition key_of :: "pattern \<Rightarrow> pattern_key" where
  "key_of p = (pat_time_format p, pat_secret p, pat_salt_format p,
               pat_hash_type p, pat_match_type p)"

fun add_to_group ::
  "pattern_key \<Rightarrow> pattern \<Rightarrow> (pattern_key \<times> pattern list) list
     \<Rightarrow> (pattern_key \<times> pattern list) list" where
  "add_to_group k p [] = [(k, [p])]"
| "add_to_group k p ((k', ps) # groups) =
     (if k = k' then (k', ps @ [p]) # groups else (k', ps) # add_to_group k p groups)"

definition pattern_groups :: "pattern list \<Rightarrow> (pattern_key \<times> pattern list) list" where
  "pattern_groups found = foldl (\<lambda>groups p. add_to_group (key_of p) p groups) [] found"

text \<open>
  The chain that recomputes the time value of a validation record from the name of the
  time format. No branch for an unknown name leaves \<open>time_val\<close> at \<open>None\<close>.
\<close>

definition time_value :: "env \<Rightarrow> string \<Rightarrow> datetime \<Rightarrow> game \<Rightarrow> string option" where
  "time_value e time_format dt game =
     (if time_format = ''epoch'' then Some (str_int (epoch_seconds e dt))
      else if time_format = ''epoch_ms'' then Some (str_int (epoch_millis e dt))
      else if time_format = ''date''
        then Some (strftime_Y dt @ two_digits (dt_month dt) @ two_digits (dt_day dt))
      else if time_format = ''time''
        then Some (two_digits (dt_hour dt) @ two_digits (dt_minute dt)
                   @ two_digits (dt_second dt))
      else if time_format = ''datetime''
        then Some (strftime_Y dt @ two_digits (dt_month dt) @ two_digits (dt_day dt)
                   @ two_digits (dt_hour dt) @ two_digits (dt_minute dt)
                   @ two_digits (dt_second dt))
      else if time_format = ''year'' then Some (strftime_Y dt)
      else if time_format = ''month'' then Some (two_digits (dt_month dt))
      else if time_format = ''day'' then Some (two_digits (dt_day dt))
      else if time_format = ''hour'' then Some (two_digits (dt_hour dt))
      else if time_format = ''minute'' then Some (two_digits (dt_minute dt))
      else if time_format = ''second'' then Some (two_digits (dt_second dt))
      else if time_format = ''microsecond'' then Some (str_nat (dt_microsecond dt))
      else if time_format = ''game_id'' then Some (game_id_value game)
      else None)"

definition digest :: "env \<Rightarrow> hash_type \<Rightarrow> string \<Rightarrow> string" where
  "digest e ht s = (case ht of MD5 \<Rightarrow> md5_hex e s | SHA1 \<Rightarrow> sha1_hex e s | SHA256 \<Rightarrow> sha256_hex e s)"

text \<open>
  The input the validator hashes for one pattern of the group. It tests the stored
  input string for the substrings \<open>TimeSecret\<close> and \<open>SecretTime\<close>, then for equality
  with the name of the time format, and falls back to the salt alone.
\<close>

definition validation_input :: "pattern \<Rightarrow> string \<Rightarrow> string \<Rightarrow> string" where
  "validation_input p time_val salt =
     (if contains ''TimeSecret'' (pat_input p) then time_val @ salt
      else if contains ''SecretTime'' (pat_input p) then salt @ time_val
      else if pat_input p = pat_time_format p then time_val
      else salt)"

text \<open>The loop over the patterns of a group: true when some pattern matches (\<open>break\<close>).\<close>

fun try_patterns ::
  "env \<Rightarrow> hash_type \<Rightarrow> match_type \<Rightarrow> string \<Rightarrow> string \<Rightarrow> string \<Rightarrow> pattern list \<Rightarrow> bool" where
  "try_patterns e ht mt seed time_val salt [] = False"
| "try_patterns e ht mt seed time_val salt (p # ps) =
     (let hash_value = digest e ht (validation_input p time_val salt)
      in if mt = Exact \<and> seed = hash_value then True
         else if mt = Partial16 \<and> startswith seed (take 16 hash_value) then True
         else try_patterns e ht mt seed time_val salt ps)"

text \<open>
  The loop over the validation games, with the counters \<open>matches\<close> and \<open>total\<close>. The
  counter \<open>total\<close> is incremented before the timestamp is parsed.
\<close>

fun validate_games ::
  "env \<Rightarrow> pattern_key \<Rightarrow> pattern list \<Rightarrow> game list \<Rightarrow> nat \<Rightarrow> nat \<Rightarrow> error + (nat \<times> nat)" where
  "validate_games e key patterns [] n_matches n_total = Inr (n_matches, n_total)"
| "validate_games e key patterns (game # rest) n_matches n_total =
     (case (timestamp game, serverSeed game) of
        (Some ts, Some seed) \<Rightarrow>
          (case fromisoformat e ts of
             None \<Rightarrow> Inl ValueError
           | Some dt \<Rightarrow>
               (case key of (time_format, secret, salt_format, ht, mt) \<Rightarrow>
                 (case time_value e time_format dt game of
                    None \<Rightarrow> validate_games e key patterns rest n_matches (n_total + 1)
                  | Some time_val \<Rightarrow>
                      if time_val = [] then validate_games e key patterns rest n_matches (n_total + 1)
                      else if try_patterns e ht mt seed time_val
                                (str_format salt_format secret) patterns
                        then validate_games e key patterns rest (n_matches + 1) (n_total + 1)
                      else validate_games e key patterns rest n_matches (n_total + 1))))
      | _ \<Rightarrow> validate_games e key patterns rest n_matches n_total)"

text \<open>
  What one validation record adds to the counters \<open>matches\<close> and \<open>total\<close> in one pass
  of the loop of \<open>validate_games\<close>, or the error it raises.
\<close>

definition count_game :: "env \<Rightarrow> pattern_key \<Rightarrow> pattern list \<Rightarrow> game \<Rightarrow> error + (nat \<times> nat)" where
  "count_game e key patterns game =
     (case (timestamp game, serverSeed game) of
        (Some ts, Some seed) \<Rightarrow>
          (case fromisoformat e ts of
             None \<Rightarrow> Inl ValueError
           | Some dt \<Rightarrow>
               (case key of (time_format, secret, salt_format, ht, mt) \<Rightarrow>
                 (case time_value e time_format dt game of
                    None \<Rightarrow> Inr (0, 1)
                  | Some time_val \<Rightarrow>
                      if time_val = [] then Inr (0, 1)
                      else if try_patterns e ht mt seed time_val
                                (str_format salt_format secret) patterns
                        then Inr (1, 1)
                      else Inr (0, 1))))
      | _ \<Rightarrow> Inr (0, 0))"

text \<open>
  One entry of \<open>validation_results\<close>. The rate is the quotient \<open>matches / total\<close>, the
  number 0 when \<open>total\<close> is 0.
\<close>

record validation_result =
  vr_matches :: nat
  vr_total :: nat
  vr_success_rate :: rat

definition validate_group ::
  "env \<Rightarrow> pattern_key \<Rightarrow> pattern list \<Rightarrow> game list \<Rightarrow> error + validation_result" where
  "validate_group e key patterns validation_games =
     (case validate_games e key patterns validation_games 0 0 of
        Inl err \<Rightarrow> Inl err
      | Inr (n_matches, n_total) \<Rightarrow>
          Inr \<lparr>vr_matches = n_matches, vr_total = n_total,
               vr_success_rate = (if n_total > 0 then of_nat n_matches / of_nat n_total else 0)\<rparr>)"

fun validate_groups ::
  "env \<Rightarrow> (pattern_key \<times> pattern list) list \<Rightarrow> game list
     \<Rightarrow> error + (pattern_key \<times> validation_result) list" where
  "validate_groups e [] validation_games = Inr []"
| "validate_groups e ((key, patterns) # groups) validation_games =
     (case validate_group e key patterns validation_games of
        Inl err \<Rightarrow> Inl err
      | Inr r \<Rightarrow>
          (case validate_groups e groups validation_games of
             Inl err \<Rightarrow> Inl err
           | Inr rs \<Rightarrow> Inr ((key, r) # rs)))"

section \<open>Loading records\<close>

text \<open>
  The analyzer object: its fields \<open>data_path\<close> and \<open>games\<close>. The
  file system and the JSON parser are parameters: \<open>read_lines\<close> opens a file and gives
  its lines (\<open>None\<close> when it cannot be opened), \<open>json_loads\<close> parses one line and
  \<open>json_load\<close> a whole file (\<open>None\<close> where they raise).
\<close>

record analyzer =
  self_data_path :: "string option"
  self_games :: "game list"

record io =
  read_lines :: "string \<Rightarrow> string list option"
  json_loads :: "string \<Rightarrow> game option"
  json_load :: "string \<Rightarrow> game list option"

definition endswith :: "string \<Rightarrow> string \<Rightarrow> bool" where
  "endswith s suffix = startswith (rev s) (rev suffix)"

text \<open>
  The line loop of \<open>load_data\<close>, inside the single \<open>try\<close> of the method: the first line
  that does not parse ends the loop with the games appended so far.
\<close>

fun load_lines :: "(string \<Rightarrow> 'g option) \<Rightarrow> string list \<Rightarrow> 'g list \<Rightarrow> bool \<times> 'g list" where
  "load_lines loads [] acc = (True, acc)"
| "load_lines loads (line # rest) acc =
     (case loads line of
        None \<Rightarrow> (False, acc)
      | Some g \<Rightarrow> load_lines loads rest (acc @ [g]))"

definition load_data :: "io \<Rightarrow> analyzer \<Rightarrow> bool \<times> analyzer" where
  "load_data fs st =
     (case self_data_path st of
        None \<Rightarrow> (False, st)
      | Some path \<Rightarrow>
          if path = [] then (False, st)
          else if endswith path ''.jsonl'' then
            (case read_lines fs path of
               None \<Rightarrow> (False, st\<lparr>self_games := []\<rparr>)
             | Some lines \<Rightarrow>
                 (case load_lines (json_loads fs) lines [] of
                    (ok, gs) \<Rightarrow> (ok, st\<lparr>self_games := gs\<rparr>)))
          else
            (case json_load fs path of
               None \<Rightarrow> (False, st)
             | Some gs \<Rightarrow> (True, st\<lparr>self_games := gs\<rparr>)))"

text \<open>
  The line loop of \<open>load_collected_data\<close> in the collector's analysis tools: each line
  is stripped and parsed inside its own \<open>try\<close>, and a line that does not parse is
  reported and passed over. The result is \<open>raw_games\<close>; \<open>None\<close> when the master file
  does not exist. The model ends where \<open>raw_games\<close> is assigned: the method goes on to
  build a data frame from the games (\<open>create_analysis_dataframe\<close>), which can raise, for
  one on an empty list of games, and that part is not modelled.

  \<open>str.strip()\<close> removes the characters for which \<open>str.isspace\<close> holds. Among the
  characters below 128 these are the space, \<open>0x09\<close> to \<open>0x0D\<close> and \<open>0x1C\<close> to \<open>0x1F\<close>.
  A string is a list of bytes here, so the white space beyond ASCII (\<open>U+0085\<close>,
  \<open>U+00A0\<close> and others) is not recognised.
\<close>

definition isspace :: "char \<Rightarrow> bool" where
  "isspace c =
     (c \<in> set [CHR '' '', CHR 0x09, CHR 0x0A, CHR 0x0B, CHR 0x0C, CHR 0x0D,
                CHR 0x1C, CHR 0x1D, CHR 0x1E, CHR 0x1F])"

definition strip :: "string \<Rightarrow> string" where
  "strip s = rev (dropWhile isspace (rev (dropWhile isspace s)))"

fun collect_lines :: "(string \<Rightarrow> 'g option) \<Rightarrow> string list \<Rightarrow> 'g list \<Rightarrow> 'g list" where
  "collect_lines loads [] games = games"
| "collect_lines loads (line # rest) games =
     (case loads (strip line) of
        None \<Rightarrow> collect_lines loads rest games
      | Some game \<Rightarrow> collect_lines loads rest (games @ [game]))"

definition load_collected_data :: "(string \<Rightarrow> 'g option) \<Rightarrow> string list option \<Rightarrow> 'g list option" where
  "load_collected_data loads master_file =
     (case master_file of
        None \<Rightarrow> None
      | Some lines \<Rightarrow> Some (collect_lines loads lines []))"

section \<open>The brute-force search\<close>

text \<open>
  In \<open>seed_analysis_code.py\<close> the method \<open>brute_force_seed_generation\<close> stands at the
  end of the file, where it loads the games, takes the sample and sets the two tables;
  the loops that use \<open>sample\<close>, \<open>common_secrets\<close>, \<open>salt_formats\<close> and
  \<open>sample_size\<close> stand further up, after the first lines of \<open>run_quick_analysis\<close>,
  in which none of these names is bound. The model joins the two parts:
  \<open>search_games\<close> is the loops (generation, then validation) on the games in memory,
  and \<open>brute_force_seed_generation\<close> is the method on the analyzer.

  What a call returns or prints: \<open>NoData\<close> when there are no games and loading fails,
  else the found patterns with the validation results (none when validation is not run).
\<close>

datatype outcome = NoData | Found "pattern list" "(pattern_key \<times> validation_result) list"

definition run_validation ::
  "env \<Rightarrow> pattern list \<Rightarrow> game list \<Rightarrow> int
     \<Rightarrow> error + (pattern_key \<times> validation_result) list" where
  "run_validation e found all_games sample_size =
     (if found \<noteq> [] \<and> int (length all_games) > sample_size
      then validate_groups e (pattern_groups found) (validation_slice all_games sample_size)
      else Inr [])"

definition search_games :: "env \<Rightarrow> game list \<Rightarrow> int \<Rightarrow> error + outcome" where
  "search_games e all_games sample_size =
     (case candidate_generation e common_secrets salt_formats
             (sample_slice all_games sample_size) of
        Inl err \<Rightarrow> Inl err
      | Inr found \<Rightarrow>
          (case run_validation e found all_games sample_size of
             Inl err \<Rightarrow> Inl err
           | Inr results \<Rightarrow> Inr (Found found results)))"

definition brute_force_seed_generation ::
  "env \<Rightarrow> io \<Rightarrow> analyzer \<Rightarrow> int \<Rightarrow> (error + outcome) \<times> analyzer" where
  "brute_force_seed_generation e fs st sample_size =
     (if self_games st = [] then
        (case load_data fs st of
           (ok, st') \<Rightarrow>
             if ok then (search_games e (self_games st') sample_size, st')
             else (Inr NoData, st'))
      else (search_games e (self_games st) sample_size, st))"

section \<open>The six comparisons\<close>

text \<open>
  The six comparisons of a digest against the observed seed, in the order in which the
  search makes them, and those of them that hold for a seed and an input.
\<close>

definition six_comparisons :: "(hash_type \<times> match_type) list" where
  "six_comparisons =
     [(MD5, Exact), (SHA1, Exact), (SHA256, Exact),
      (MD5, Partial16), (SHA1, Partial16), (SHA256, Partial16)]"

definition comparison_holds :: "env \<Rightarrow> string \<Rightarrow> string \<Rightarrow> hash_type \<times> match_type \<Rightarrow> bool" where
  "comparison_holds e seed test_input c =
     (case snd c of
        Exact \<Rightarrow> seed = digest e (fst c) test_input
      | Partial16 \<Rightarrow> startswith seed (take 16 (digest e (fst c) test_input)))"

definition matching_comparisons :: "env \<Rightarrow> string \<Rightarrow> string \<Rightarrow> (hash_type \<times> match_type) list" where
  "matching_comparisons e seed test_input =
     filter (comparison_holds e seed test_input) six_comparisons"

section \<open>A concrete library instance\<close>

text \<open>
  An instance of the library parameters on which the definitions can be run. Its
  digests have the lengths of the real ones (32, 40 and 64 characters): a letter of the
  algorithm, then the reversed input, padded with that letter. Its \<open>fromisoformat\<close> accepts
  \<open>YYYY-MM-DDTHH:MM:SS\<close>, and its epoch is that of UTC.
\<close>

definition demo_digest :: "nat \<Rightarrow> char \<Rightarrow> string \<Rightarrow> string" where
  "demo_digest n c s = take n (c # rev s @ replicate n c)"

definition digit_val :: "char \<Rightarrow> nat option" where
  "digit_val c =
     map_of [(CHR ''0'', 0), (CHR ''1'', 1), (CHR ''2'', 2), (CHR ''3'', 3), (CHR ''4'', 4),
             (CHR ''5'', 5), (CHR ''6'', 6), (CHR ''7'', 7), (CHR ''8'', 8), (CHR ''9'', 9)] c"

fun digits_val :: "string \<Rightarrow> nat \<Rightarrow> nat option" where
  "digits_val [] acc = Some acc"
| "digits_val (c # cs) acc =
     (case digit_val c of None \<Rightarrow> None | Some d \<Rightarrow> digits_val cs (10 * acc + d))"

definition demo_fromisoformat :: "string \<Rightarrow> datetime option" where
  "demo_fromisoformat ts =
     (if length ts = 19 \<and> ts ! 4 = CHR ''-'' \<and> ts ! 7 = CHR ''-'' \<and> ts ! 10 = CHR ''T''
         \<and> ts ! 13 = CHR '':'' \<and> ts ! 16 = CHR '':''
      then (case (digits_val (take 4 ts) 0, digits_val (take 2 (drop 5 ts)) 0,
                  digits_val (take 2 (drop 8 ts)) 0, digits_val (take 2 (drop 11 ts)) 0,
                  digits_val (take 2 (drop 14 ts)) 0, digits_val (take 2 (drop 17 ts)) 0) of
              (Some y, Some mo, Some d, Some h, Some mi, Some sec) \<Rightarrow>
                Some \<lparr>dt_year = y, dt_month = mo, dt_day = d, dt_hour = h, dt_minute = mi,
                      dt_second = sec, dt_microsecond = 0\<rparr>
            | _ \<Rightarrow> None)
      else None)"

definition days_from_civil :: "int \<Rightarrow> int \<Rightarrow> int \<Rightarrow> int" where
  "days_from_civil y m d =
     (let y' = (if m \<le> 2 then y - 1 else y);
          era = y' div 400;
          yoe = y' - era * 400;
          doy = (153 * ((m + 9) mod 12) + 2) div 5 + d - 1;
          doe = yoe * 365 + yoe div 4 - yoe div 100 + doy
      in era * 146097 + doe - 719468)"

definition demo_epoch_seconds :: "datetime \<Rightarrow> int" where
  "demo_epoch_seconds dt =
     days_from_civil (int (dt_year dt)) (int (dt_month dt)) (int (dt_day dt)) * 86400
     + int (dt_hour dt) * 3600 + int (dt_minute dt) * 60 + int (dt_second dt)"

definition demo_env :: env where
  "demo_env =
     \<lparr>md5_hex = demo_digest 32 CHR ''a'',
      sha1_hex = demo_digest 40 CHR ''b'',
      sha256_hex = demo_digest 64 CHR ''c'',
      fromisoformat = demo_fromisoformat,
      epoch_seconds = demo_epoch_seconds,
      epoch_millis = (\<lambda>dt. demo_epoch_seconds dt * 1000 + int (dt_microsecond dt) div 1000)\<rparr>"

text \<open>
  Records for running the search. The seed of \<open>demo_game0\<close> is the SHA-256 digest of
  its date followed by the salt \<open>rugs.fun_salt\<close>.
\<close>

definition demo_seed0 :: string where
  "demo_seed0 = demo_digest 64 CHR ''c'' ''20240101rugs.fun_salt''"

definition demo_game0 :: game where
  "demo_game0 =
     \<lparr>gameId = Some ''20240101-1f'', timestamp = Some ''2024-01-01T12:34:56'',
      serverSeed = Some demo_seed0\<rparr>"

definition demo_dt0 :: datetime where
  "demo_dt0 = \<lparr>dt_year = 2024, dt_month = 1, dt_day = 1, dt_hour = 12, dt_minute = 34,
      dt_second = 56, dt_microsecond = 0\<rparr>"

text \<open>
  \<open>demo_game_no_id\<close> is \<open>demo_game0\<close> without its \<open>gameId\<close>, and
  \<open>demo_game_no_seed\<close> is a record without \<open>serverSeed\<close>. The record
  \<open>demo_game_other_id\<close> has no \<open>gameId\<close>; its seed is the SHA-256 digest of the
  \<open>gameId\<close> of \<open>demo_game0\<close> followed by the salt \<open>rug\<close>.
\<close>

definition demo_game_no_id :: game where
  "demo_game_no_id =
     \<lparr>gameId = None, timestamp = Some ''2024-01-01T12:34:56'', serverSeed = Some demo_seed0\<rparr>"

definition demo_game_no_seed :: game where
  "demo_game_no_seed =
     \<lparr>gameId = Some ''20240103-2a'', timestamp = Some ''2024-01-03T08:00:00'',
      serverSeed = None\<rparr>"

definition demo_seed_other_id :: string where
  "demo_seed_other_id = demo_digest 64 CHR ''c'' ''20240101-1frug''"

definition demo_game_other_id :: game where
  "demo_game_other_id =
     \<lparr>gameId = None, timestamp = Some ''2024-01-01T12:34:56'',
      serverSeed = Some demo_seed_other_id\<rparr>"

text \<open>
  A stand-in for the JSON parser and the file system: a line parses when it is written
  in braces, to a record with the text between them as its \<open>gameId\<close>; the file
  \<open>rugs_data.jsonl\<close> has a line that does not parse between two that do, and
  \<open>clean.jsonl\<close> has the two that do.
\<close>

definition demo_json_loads :: "string \<Rightarrow> game option" where
  "demo_json_loads line =
     (if 2 \<le> length line \<and> hd line = CHR ''{'' \<and> last line = CHR ''}''
      then Some \<lparr>gameId = Some (butlast (tl line)), timestamp = None, serverSeed = None\<rparr>
      else None)"

definition demo_io :: io where
  "demo_io =
     \<lparr>read_lines = (\<lambda>path.
        if path = ''rugs_data.jsonl'' then Some [''{a}'', ''oops'', ''{b}'']
        else if path = ''clean.jsonl'' then Some [''{a}'', ''{b}'']
        else None),
      json_loads = demo_json_loads,
      json_load = (\<lambda>path. None)\<rparr>"

definition demo_record :: "string \<Rightarrow> game" where
  "demo_record name = \<lparr>gameId = Some name, timestamp = None, serverSeed = None\<rparr>"

text \<open>
  \<open>demo_game1\<close> is a record of the next day whose seed is built as that of
  \<open>demo_game0\<close>: the SHA-256 digest of its date followed by the salt \<open>rugs.fun_salt\<close>.
\<close>

definition demo_seed1 :: string where
  "demo_seed1 = demo_digest 64 CHR ''c'' ''20240102rugs.fun_salt''"

definition demo_game1 :: game where
  "demo_game1 =
     \<lparr>gameId = Some ''20240102-2b'', timestamp = Some ''2024-01-02T12:34:56'',
      serverSeed = Some demo_seed1\<rparr>"

definition demo_dt1 :: datetime where
  "demo_dt1 = \<lparr>dt_year = 2024, dt_month = 1, dt_day = 2, dt_hour = 12, dt_minute = 34,
      dt_second = 56, dt_microsecond = 0\<rparr>"


definition demo_env_tz :: env where
  "demo_env_tz =
     demo_env\<lparr>epoch_seconds := (\<lambda>dt. demo_epoch_seconds dt - 3600),
              epoch_millis := (\<lambda>dt. (demo_epoch_seconds dt - 3600) * 1000
                                     + int (dt_microsecond dt) div 1000)\<rparr>"

definition summer_offset :: "datetime \<Rightarrow> int" where
  "summer_offset dt = (if 4 \<le> dt_month dt \<and> dt_month dt \<le> 10 then 3600 else 0)"

definition demo_env_dst :: env where
  "demo_env_dst =
     demo_env\<lparr>epoch_seconds := (\<lambda>dt. demo_epoch_seconds dt - summer_offset dt),
              epoch_millis := (\<lambda>dt. (demo_epoch_seconds dt - summer_offset dt) * 1000
                                     + int (dt_microsecond dt) div 1000)\<rparr>"

definition demo_seed_epoch :: string where
  "demo_seed_epoch = demo_digest 64 CHR ''c'' ''1704112496rug''"

definition demo_game_epoch :: game where
  "demo_game_epoch =
     \<lparr>gameId = Some ''20240101-3c'', timestamp = Some ''2024-01-01T12:34:56'',
      serverSeed = Some demo_seed_epoch\<rparr>"

section \<open>Slices of the games list\<close>

lemma distinct_fst_enumerate: "distinct (map fst (enumerate_list xs))"
  by (simp add: enumerate_list_def)

lemma take_drop_fst_disjoint:
  assumes "distinct (map fst ys)"
  shows "set (map fst (take b ys)) \<inter> set (map fst (take m (drop b ys))) = {}"
proof -
  have eq: "map fst (take b ys) @ map fst (drop b ys) = map fst ys"
    by (metis append_take_drop_id map_append)
  have "distinct (map fst (take b ys) @ map fst (drop b ys))"
    by (simp only: eq assms)
  then have disj: "set (map fst (take b ys)) \<inter> set (map fst (drop b ys)) = {}"
    by (rule distinct_append [THEN iffD1, THEN conjunct2, THEN conjunct2])
  have "set (take m (drop b ys)) \<subseteq> set (drop b ys)"
    by (rule set_take_subset)
  then have "set (map fst (take m (drop b ys))) \<subseteq> set (map fst (drop b ys))"
    unfolding set_map by (rule image_mono)
  with disj show ?thesis by blast
qed

text \<open>
  C6. For every games list and every sample size, no position of the games list is
  both in the generation sample \<open>games[:n]\<close> and in the validation slice
  \<open>games[n:n+100]\<close>.
\<close>

theorem sample_validation_disjoint:
  "set (map fst (sample_slice (enumerate_list games) n))
   \<inter> set (map fst (validation_slice (enumerate_list games) n)) = {}"
  unfolding sample_slice_def validation_slice_def py_slice_to_def py_slice_def
  by (rule take_drop_fst_disjoint [OF distinct_fst_enumerate])

section \<open>Facts about candidate generation\<close>





lemma check_input_take1:
  "check_input e i seed key secret fmt x =
     map (\<lambda>c. mk_pattern i seed key secret fmt x (fst c) (snd c))
         (take 1 (matching_comparisons e seed x))"
  by (simp add: check_input_def matching_comparisons_def six_comparisons_def
        comparison_holds_def digest_def Let_def)


lemma set_for_salt_format:
  "set (for_salt_format e i seed key val secret fmt) =
     (\<Union>x \<in> set (test_inputs val (str_format fmt secret)).
        set (check_input e i seed key secret fmt x))"
  by (simp add: for_salt_format_def)

lemma set_for_secret:
  "set (for_secret e salts i seed key val secret) =
     (\<Union>fmt \<in> set salts. set (for_salt_format e i seed key val secret fmt))"
  by (simp add: for_secret_def)

lemma set_for_time_format:
  "set (for_time_format e secrets salts i seed kv) =
     (if snd kv = [] then {}
      else (\<Union>secret \<in> set secrets. set (for_secret e salts i seed (fst kv) (snd kv) secret)))"
  by (simp add: for_time_format_def)

lemma set_for_record:
  "set (for_record e secrets salts game i seed dt) =
     (\<Union>kv \<in> set (time_formats e dt game). set (for_time_format e secrets salts i seed kv))"
  by (simp add: for_record_def)

lemma for_record_mem:
  "p \<in> set (for_record e secrets salts game i seed dt) \<longleftrightarrow>
     (\<exists>key val secret fmt x.
        (key, val) \<in> set (time_formats e dt game) \<and> val \<noteq> [] \<and>
        secret \<in> set secrets \<and> fmt \<in> set salts \<and>
        x \<in> set (test_inputs val (str_format fmt secret)) \<and>
        p \<in> set (check_input e i seed key secret fmt x))"
proof
  assume "p \<in> set (for_record e secrets salts game i seed dt)"
  then obtain kv secret fmt x where
    "kv \<in> set (time_formats e dt game)" "snd kv \<noteq> []" "secret \<in> set secrets"
    "fmt \<in> set salts" "x \<in> set (test_inputs (snd kv) (str_format fmt secret))"
    "p \<in> set (check_input e i seed (fst kv) secret fmt x)"
    unfolding set_for_record set_for_time_format set_for_secret set_for_salt_format
    by (auto split: if_splits)
  then have "(fst kv, snd kv) \<in> set (time_formats e dt game) \<and> snd kv \<noteq> [] \<and>
        secret \<in> set secrets \<and> fmt \<in> set salts \<and>
        x \<in> set (test_inputs (snd kv) (str_format fmt secret)) \<and>
        p \<in> set (check_input e i seed (fst kv) secret fmt x)"
    by simp
  then show "\<exists>key val secret fmt x.
        (key, val) \<in> set (time_formats e dt game) \<and> val \<noteq> [] \<and>
        secret \<in> set secrets \<and> fmt \<in> set salts \<and>
        x \<in> set (test_inputs val (str_format fmt secret)) \<and>
        p \<in> set (check_input e i seed key secret fmt x)"
    by blast
next
  assume "\<exists>key val secret fmt x.
        (key, val) \<in> set (time_formats e dt game) \<and> val \<noteq> [] \<and>
        secret \<in> set secrets \<and> fmt \<in> set salts \<and>
        x \<in> set (test_inputs val (str_format fmt secret)) \<and>
        p \<in> set (check_input e i seed key secret fmt x)"
  then obtain key val secret fmt x where
    kv: "(key, val) \<in> set (time_formats e dt game)" and ne: "val \<noteq> []" and
    rest: "secret \<in> set secrets" "fmt \<in> set salts"
      "x \<in> set (test_inputs val (str_format fmt secret))"
      "p \<in> set (check_input e i seed key secret fmt x)"
    by blast
  from rest have "p \<in> set (for_time_format e secrets salts i seed (key, val))"
    unfolding set_for_time_format set_for_secret set_for_salt_format
    using ne by auto
  with kv show "p \<in> set (for_record e secrets salts game i seed dt)"
    unfolding set_for_record by blast
qed

lemma generate_loop_mem:
  "generate_loop e secrets salts game i pairs = Inr found \<Longrightarrow>
   p \<in> set found \<longleftrightarrow>
     (\<exists>j ts seed dt. j < length pairs \<and> pairs ! j = (ts, seed) \<and>
        fromisoformat e ts = Some dt \<and>
        p \<in> set (for_record e secrets salts game (i + j) seed dt))"
proof (induction pairs arbitrary: i found)
  case Nil
  then show ?case by simp
next
  case (Cons a pairs)
  obtain ts seed where a: "a = (ts, seed)" by (cases a)
  from Cons.prems obtain dt rest where
    dt: "fromisoformat e ts = Some dt" and
    rest: "generate_loop e secrets salts game (Suc i) pairs = Inr rest" and
    found: "found = for_record e secrets salts game i seed dt @ rest"
    by (auto simp: a split: option.splits sum.splits)
  have IH: "p \<in> set rest \<longleftrightarrow>
     (\<exists>j ts seed dt. j < length pairs \<and> pairs ! j = (ts, seed) \<and>
        fromisoformat e ts = Some dt \<and>
        p \<in> set (for_record e secrets salts game (Suc i + j) seed dt))"
    by (rule Cons.IH [OF rest])
  show ?case
  proof
    assume "p \<in> set found"
    then consider "p \<in> set (for_record e secrets salts game i seed dt)" | "p \<in> set rest"
      by (auto simp: found)
    then show "\<exists>j ts seed dt. j < length (a # pairs) \<and> (a # pairs) ! j = (ts, seed) \<and>
        fromisoformat e ts = Some dt \<and>
        p \<in> set (for_record e secrets salts game (i + j) seed dt)"
    proof cases
      case 1
      then have "0 < length (a # pairs) \<and> (a # pairs) ! 0 = (ts, seed) \<and>
        fromisoformat e ts = Some dt \<and>
        p \<in> set (for_record e secrets salts game (i + 0) seed dt)"
        by (simp add: a dt)
      then show ?thesis by blast
    next
      case 2
      with IH obtain j ts' seed' dt' where
        "j < length pairs" "pairs ! j = (ts', seed')" "fromisoformat e ts' = Some dt'"
        "p \<in> set (for_record e secrets salts game (Suc i + j) seed' dt')"
        by blast
      then have "Suc j < length (a # pairs) \<and> (a # pairs) ! Suc j = (ts', seed') \<and>
        fromisoformat e ts' = Some dt' \<and>
        p \<in> set (for_record e secrets salts game (i + Suc j) seed' dt')"
        by simp
      then show ?thesis by blast
    qed
  next
    assume "\<exists>j ts seed dt. j < length (a # pairs) \<and> (a # pairs) ! j = (ts, seed) \<and>
        fromisoformat e ts = Some dt \<and>
        p \<in> set (for_record e secrets salts game (i + j) seed dt)"
    then obtain j ts' seed' dt' where
      j: "j < length (a # pairs)" "(a # pairs) ! j = (ts', seed')"
      "fromisoformat e ts' = Some dt'"
      "p \<in> set (for_record e secrets salts game (i + j) seed' dt')"
      by blast
    show "p \<in> set found"
    proof (cases j)
      case 0
      with j a dt show ?thesis by (simp add: found)
    next
      case (Suc k)
      with j have "k < length pairs \<and> pairs ! k = (ts', seed') \<and>
        fromisoformat e ts' = Some dt' \<and>
        p \<in> set (for_record e secrets salts game (Suc i + k) seed' dt')"
        by simp
      with IH have "p \<in> set rest" by blast
      then show ?thesis by (simp add: found)
    qed
  qed
qed

lemma generate_loop_succeeds:
  "(\<forall>ts seed. (ts, seed) \<in> set pairs \<longrightarrow> fromisoformat e ts \<noteq> None) \<Longrightarrow>
   \<exists>found. generate_loop e secrets salts game i pairs = Inr found"
proof (induction pairs arbitrary: i)
  case Nil
  then show ?case by simp
next
  case (Cons a pairs)
  obtain ts seed where a: "a = (ts, seed)" by (cases a)
  from Cons.prems obtain dt where dt: "fromisoformat e ts = Some dt"
    by (auto simp: a)
  from Cons.prems have "\<forall>ts seed. (ts, seed) \<in> set pairs \<longrightarrow> fromisoformat e ts \<noteq> None"
    by simp
  from Cons.IH [OF this, of "Suc i"] obtain rest where
    "generate_loop e secrets salts game (Suc i) pairs = Inr rest" by blast
  then show ?case by (simp add: a dt)
qed

lemma extract_pairs_mem:
  "(ts, seed) \<in> set (extract_pairs sample) \<longleftrightarrow>
     (\<exists>g \<in> set sample. timestamp g = Some ts \<and> serverSeed g = Some seed)"
  by (auto simp: extract_pairs_def has_both_def image_iff)

lemma candidate_generation_mem:
  assumes "candidate_generation e secrets salts sample = Inr found"
  shows "p \<in> set found \<longleftrightarrow>
     (\<exists>j ts seed dt key val secret fmt x.
        j < length (extract_pairs sample) \<and> extract_pairs sample ! j = (ts, seed) \<and>
        fromisoformat e ts = Some dt \<and>
        (key, val) \<in> set (time_formats e dt (last sample)) \<and> val \<noteq> [] \<and>
        secret \<in> set secrets \<and> fmt \<in> set salts \<and>
        x \<in> set (test_inputs val (str_format fmt secret)) \<and>
        p \<in> set (check_input e j seed key secret fmt x))"
proof (cases "sample = []")
  case True
  with assms show ?thesis by (simp add: candidate_generation_def extract_pairs_def)
next
  case False
  with assms have "generate_loop e secrets salts (last sample) 0 (extract_pairs sample) = Inr found"
    by (simp add: candidate_generation_def)
  from generate_loop_mem [OF this, of p] show ?thesis
    by (simp add: for_record_mem)
qed

lemma candidate_generation_succeeds:
  assumes "\<forall>g \<in> set sample. \<forall>ts. has_both g \<longrightarrow> timestamp g = Some ts \<longrightarrow> fromisoformat e ts \<noteq> None"
  shows "\<exists>found. candidate_generation e secrets salts sample = Inr found"
proof -
  have "\<forall>ts seed. (ts, seed) \<in> set (extract_pairs sample) \<longrightarrow> fromisoformat e ts \<noteq> None"
    using assms by (auto simp: extract_pairs_mem has_both_def)
  from generate_loop_succeeds [OF this] show ?thesis
    by (simp add: candidate_generation_def)
qed




lemma demo_parse0: "fromisoformat demo_env ''2024-01-01T12:34:56'' = Some demo_dt0"
  by (simp add: demo_env_def demo_fromisoformat_def digit_val_def demo_dt0_def)

lemma demo_date0: "(''date'', ''20240101'') \<in> set (time_encodings demo_env demo_dt0)"
  by (simp add: time_encodings_def demo_dt0_def strftime_Y_def two_digits_def zfill_def
      str_nat.simps digit_char_def)

lemma demo_salt0: "str_format ''{}_salt'' ''rugs.fun'' = ''rugs.fun_salt''"
  by simp

section \<open>The positive control\<close>



lemma demo_matching0:
  "matching_comparisons demo_env demo_seed0 ''20240101rugs.fun_salt''
     = [(SHA256, Exact), (SHA256, Partial16)]"
  by code_simp

lemma demo_check0:
  "check_input demo_env 0 demo_seed0 ''date'' ''rugs.fun'' ''{}_salt'' ''20240101rugs.fun_salt''
     = [mk_pattern 0 demo_seed0 ''date'' ''rugs.fun'' ''{}_salt'' ''20240101rugs.fun_salt'' SHA256 Exact]"
  by code_simp

lemma demo_pairs0: "extract_pairs [demo_game0] = [(''2024-01-01T12:34:56'', demo_seed0)]"
  by (simp add: extract_pairs_def has_both_def demo_game0_def)

lemma demo_generation0_succeeds:
  "\<exists>found. candidate_generation demo_env common_secrets salt_formats [demo_game0] = Inr found"
  by (rule candidate_generation_succeeds) (simp add: demo_game0_def demo_parse0)

section \<open>One pattern for each input\<close>

text \<open>
  C2. For one candidate input the search appends at most one pattern: that of the first
  comparison that holds, in the order MD5 exact, SHA-1 exact, SHA-256 exact, MD5 prefix,
  SHA-1 prefix, SHA-256 prefix, with its algorithm and its match type. The patterns
  returned by candidate generation are exactly these, over the records of the sample
  that have both fields, the entries of \<open>time_formats\<close> with a value that is not empty,
  the secrets, the salt templates and the four orderings.
\<close>

theorem first_comparison_only:
  "check_input e i seed key secret salt_format x =
     map (\<lambda>c. mk_pattern i seed key secret salt_format x (fst c) (snd c))
         (take 1 (matching_comparisons e seed x)) \<and>
   (candidate_generation e secrets salts sample = Inr found \<longrightarrow>
    (p \<in> set found \<longleftrightarrow>
     (\<exists>j ts seed dt key val secret fmt x c.
        j < length (extract_pairs sample) \<and> extract_pairs sample ! j = (ts, seed) \<and>
        fromisoformat e ts = Some dt \<and>
        (key, val) \<in> set (time_formats e dt (last sample)) \<and> val \<noteq> [] \<and>
        secret \<in> set secrets \<and> fmt \<in> set salts \<and>
        x \<in> set (test_inputs val (str_format fmt secret)) \<and>
        take 1 (matching_comparisons e seed x) = [c] \<and>
        p = mk_pattern j seed key secret fmt x (fst c) (snd c))))"
proof (intro conjI impI)
  show "check_input e i seed key secret salt_format x =
     map (\<lambda>c. mk_pattern i seed key secret salt_format x (fst c) (snd c))
         (take 1 (matching_comparisons e seed x))"
    by (rule check_input_take1)
next
  assume cg: "candidate_generation e secrets salts sample = Inr found"
  have one: "p \<in> set (check_input e j seed key secret fmt x) \<longleftrightarrow>
      (\<exists>c. take 1 (matching_comparisons e seed x) = [c] \<and>
           p = mk_pattern j seed key secret fmt x (fst c) (snd c))"
    for j seed key secret fmt x
    unfolding check_input_take1
    by (cases "matching_comparisons e seed x") auto
  show "p \<in> set found \<longleftrightarrow>
     (\<exists>j ts seed dt key val secret fmt x c.
        j < length (extract_pairs sample) \<and> extract_pairs sample ! j = (ts, seed) \<and>
        fromisoformat e ts = Some dt \<and>
        (key, val) \<in> set (time_formats e dt (last sample)) \<and> val \<noteq> [] \<and>
        secret \<in> set secrets \<and> fmt \<in> set salts \<and>
        x \<in> set (test_inputs val (str_format fmt secret)) \<and>
        take 1 (matching_comparisons e seed x) = [c] \<and>
        p = mk_pattern j seed key secret fmt x (fst c) (snd c))"
    unfolding candidate_generation_mem [OF cg] one by blast
qed

text \<open>
  The prefix comparison of the SHA-256 digest holds for the seed of \<open>demo_game0\<close> and
  the input \<open>20240101rugs.fun_salt\<close>, as the exact one does, and no pattern of match
  type \<open>partial_16\<close> is returned for that input.
\<close>

theorem every_comparison_recorded_counterexample:
  "comparison_holds demo_env demo_seed0 ''20240101rugs.fun_salt'' (SHA256, Partial16) \<and>
   (\<exists>found. candidate_generation demo_env common_secrets salt_formats [demo_game0] = Inr found \<and>
      (\<forall>p \<in> set found. pat_input p = ''20240101rugs.fun_salt'' \<longrightarrow>
           pat_hash_type p = SHA256 \<and> pat_match_type p = Exact))"
proof -
  have holds: "comparison_holds demo_env demo_seed0 ''20240101rugs.fun_salt'' (SHA256, Partial16)"
    by code_simp
  from demo_generation0_succeeds obtain found where
    found: "candidate_generation demo_env common_secrets salt_formats [demo_game0] = Inr found"
    by blast
  have "pat_hash_type p = SHA256 \<and> pat_match_type p = Exact"
    if p: "p \<in> set found" and inp: "pat_input p = ''20240101rugs.fun_salt''" for p
  proof -
    from p obtain j ts seed key secret fmt x where
      j: "j < length (extract_pairs [demo_game0])" "extract_pairs [demo_game0] ! j = (ts, seed)"
      and mem: "p \<in> set (check_input demo_env j seed key secret fmt x)"
      unfolding candidate_generation_mem [OF found] by blast
    from j have seed: "seed = demo_seed0" by (simp add: demo_pairs0)
    from mem obtain c where c: "c \<in> set (take 1 (matching_comparisons demo_env seed x))"
      "p = mk_pattern j seed key secret fmt x (fst c) (snd c)"
      unfolding check_input_take1 by auto
    from c(2) inp have "x = ''20240101rugs.fun_salt''" by (simp add: mk_pattern_def)
    with c(1) seed have "c = (SHA256, Exact)" by (simp add: demo_matching0)
    with c(2) show ?thesis by (simp add: mk_pattern_def)
  qed
  with holds found show ?thesis by blast
qed

theorem first_comparison_only_witness:
  "\<exists>found. candidate_generation demo_env common_secrets salt_formats [demo_game0] = Inr found \<and>
     mk_pattern 0 demo_seed0 ''date'' ''rugs.fun'' ''{}_salt'' ''20240101rugs.fun_salt''
        SHA256 Exact \<in> set found"
proof -
  from demo_generation0_succeeds obtain found where
    found: "candidate_generation demo_env common_secrets salt_formats [demo_game0] = Inr found"
    by blast
  let ?p = "mk_pattern 0 demo_seed0 ''date'' ''rugs.fun'' ''{}_salt'' ''20240101rugs.fun_salt''
        SHA256 Exact"
  have "0 < length (extract_pairs [demo_game0]) \<and>
        extract_pairs [demo_game0] ! 0 = (''2024-01-01T12:34:56'', demo_seed0) \<and>
        fromisoformat demo_env ''2024-01-01T12:34:56'' = Some demo_dt0 \<and>
        (''date'', ''20240101'') \<in> set (time_formats demo_env demo_dt0 (last [demo_game0])) \<and>
        ''20240101'' \<noteq> [] \<and>
        ''rugs.fun'' \<in> set common_secrets \<and> ''{}_salt'' \<in> set salt_formats \<and>
        ''20240101rugs.fun_salt'' \<in> set (test_inputs ''20240101'' (str_format ''{}_salt'' ''rugs.fun'')) \<and>
        take 1 (matching_comparisons demo_env demo_seed0 ''20240101rugs.fun_salt'') = [(SHA256, Exact)] \<and>
        ?p = mk_pattern 0 demo_seed0 ''date'' ''rugs.fun'' ''{}_salt'' ''20240101rugs.fun_salt''
               (fst (SHA256, Exact)) (snd (SHA256, Exact))"
    using demo_date0
    by (simp add: demo_pairs0 demo_parse0 time_formats_def common_secrets_def
        salt_formats_def test_inputs_def demo_matching0)
  then have "?p \<in> set found"
    using first_comparison_only [of demo_env 0 demo_seed0 "''date''" "''rugs.fun''" "''{}_salt''"
        "''20240101rugs.fun_salt''" common_secrets salt_formats "[demo_game0]" found ?p]
      found
    by blast
  with found show ?thesis by blast
qed

section \<open>The hashing pool\<close>

lemma last_filter_keeps: "xs \<noteq> [] \<Longrightarrow> P (last xs) \<Longrightarrow> last (filter P xs) = last xs"
proof (induction xs)
  case Nil
  then show ?case by simp
next
  case (Cons x xs)
  show ?case
  proof (cases "xs = []")
    case True
    with Cons.prems show ?thesis by simp
  next
    case False
    with Cons.prems have P: "P (last xs)" by simp
    with False have "filter P xs \<noteq> []"
      by (metis filter_empty_conv last_in_set)
    with Cons.IH [OF False P] False show ?thesis by simp
  qed
qed



lemma check_input_fields:
  "p \<in> set (check_input e i seed key secret fmt x) \<Longrightarrow>
     pat_index p = i \<and> pat_seed p = seed \<and> pat_time_format p = key \<and>
     pat_secret p = secret \<and> pat_salt_format p = fmt \<and> pat_input p = x"
  unfolding check_input_take1 by (auto simp: mk_pattern_def)


lemma demo_pattern0_found:
  assumes "candidate_generation demo_env common_secrets salt_formats sample = Inr found"
    and "j < length (extract_pairs sample)"
    and "extract_pairs sample ! j = (''2024-01-01T12:34:56'', demo_seed0)"
  shows "mk_pattern j demo_seed0 ''date'' ''rugs.fun'' ''{}_salt'' ''20240101rugs.fun_salt''
           SHA256 Exact \<in> set found"
proof -
  have kv: "(''date'', ''20240101'') \<in> set (time_formats demo_env demo_dt0 (last sample))"
    using demo_date0 by (simp add: time_formats_def)
  have x: "''20240101rugs.fun_salt''
      \<in> set (test_inputs ''20240101'' (str_format ''{}_salt'' ''rugs.fun''))"
    by (simp add: test_inputs_def)
  have c: "mk_pattern j demo_seed0 ''date'' ''rugs.fun'' ''{}_salt'' ''20240101rugs.fun_salt''
           SHA256 Exact
        \<in> set (check_input demo_env j demo_seed0 ''date'' ''rugs.fun'' ''{}_salt''
                 ''20240101rugs.fun_salt'')"
    unfolding check_input_take1 by (simp add: demo_matching0)
  have s: "''rugs.fun'' \<in> set common_secrets" "''{}_salt'' \<in> set salt_formats"
    "''20240101'' \<noteq> []"
    by (simp_all add: common_secrets_def salt_formats_def)
  show ?thesis
    unfolding candidate_generation_mem [OF assms(1)]
    using assms(2,3) demo_parse0 kv s x c by blast
qed


section \<open>The time format \<open>game_id\<close>\<close>

lemma demo_matching_other_id:
  "matching_comparisons demo_env demo_seed_other_id ''20240101-1frug''
     = [(SHA256, Exact), (SHA256, Partial16)]"
  by code_simp

text \<open>
  C5. The record \<open>demo_game_other_id\<close> has no \<open>gameId\<close>, so the value of the time
  format \<open>game_id\<close> for it is the empty string. In a sample that ends with
  \<open>demo_game0\<close> the search hashes the \<open>gameId\<close> of \<open>demo_game0\<close> for it, and returns a
  pattern of time format \<open>game_id\<close> at its index.
\<close>

theorem stale_game_id_not_skipped:
  "game_id_value demo_game_other_id = [] \<and>
   (\<exists>found. candidate_generation demo_env common_secrets salt_formats
               [demo_game_other_id, demo_game0] = Inr found \<and>
      mk_pattern 0 demo_seed_other_id ''game_id'' ''rug'' ''{}'' ''20240101-1frug''
        SHA256 Exact \<in> set found)"
proof -
  let ?sample = "[demo_game_other_id, demo_game0]"
  have "\<exists>found. candidate_generation demo_env common_secrets salt_formats ?sample = Inr found"
    by (rule candidate_generation_succeeds)
       (simp add: demo_game0_def demo_game_other_id_def has_both_def demo_parse0)
  then obtain found where
    found: "candidate_generation demo_env common_secrets salt_formats ?sample = Inr found"
    by blast
  have pairs: "0 < length (extract_pairs ?sample)"
    "extract_pairs ?sample ! 0 = (''2024-01-01T12:34:56'', demo_seed_other_id)"
    by (simp_all add: extract_pairs_def has_both_def demo_game_other_id_def demo_game0_def)
  have kv: "(''game_id'', ''20240101-1f'') \<in> set (time_formats demo_env demo_dt0 (last ?sample))"
    by (simp add: time_formats_def game_id_value_def demo_game0_def)
  have s: "''rug'' \<in> set common_secrets" "''{}'' \<in> set salt_formats" "''20240101-1f'' \<noteq> []"
    by (simp_all add: common_secrets_def salt_formats_def)
  have x: "''20240101-1frug'' \<in> set (test_inputs ''20240101-1f'' (str_format ''{}'' ''rug''))"
    by (simp add: test_inputs_def)
  have c: "mk_pattern 0 demo_seed_other_id ''game_id'' ''rug'' ''{}'' ''20240101-1frug''
             SHA256 Exact
        \<in> set (check_input demo_env 0 demo_seed_other_id ''game_id'' ''rug'' ''{}''
                 ''20240101-1frug'')"
    unfolding check_input_take1 by (simp add: demo_matching_other_id)
  have "mk_pattern 0 demo_seed_other_id ''game_id'' ''rug'' ''{}'' ''20240101-1frug''
          SHA256 Exact \<in> set found"
    unfolding candidate_generation_mem [OF found]
    using pairs demo_parse0 kv s x c by blast
  moreover have "game_id_value demo_game_other_id = []"
    by (simp add: game_id_value_def demo_game_other_id_def)
  ultimately show ?thesis using found by blast
qed

section \<open>Facts about the validation loop\<close>

lemma validate_games_step:
  "validate_games e key patterns (g # gs) m t =
     (case count_game e key patterns g of
        Inl err \<Rightarrow> Inl err
      | Inr (dm, dt) \<Rightarrow> validate_games e key patterns gs (m + dm) (t + dt))"
  by (cases key) (simp add: count_game_def split: option.splits)

lemma validate_games_acc:
  "validate_games e key patterns gs m t =
     (case validate_games e key patterns gs 0 0 of
        Inl err \<Rightarrow> Inl err
      | Inr (dm, dt) \<Rightarrow> Inr (m + dm, t + dt))"
proof (induction gs arbitrary: m t)
  case Nil
  show ?case by simp
next
  case (Cons g gs)
  show ?case
  proof (cases "count_game e key patterns g")
    case (Inl err)
    then show ?thesis by (simp add: validate_games_step del: validate_games.simps)
  next
    case (Inr d)
    obtain dm dt where d: "d = (dm, dt)" by (cases d)
    show ?thesis
      unfolding validate_games_step Inr d
      by (simp add: Cons.IH [of "m + dm" "t + dt"] Cons.IH [of dm dt]
          split: sum.splits)
  qed
qed

lemma validate_games_append:
  "validate_games e key patterns (gs1 @ gs2) m t =
     (case validate_games e key patterns gs1 m t of
        Inl err \<Rightarrow> Inl err
      | Inr (m', t') \<Rightarrow> validate_games e key patterns gs2 m' t')"
proof (induction gs1 arbitrary: m t)
  case Nil
  show ?case by simp
next
  case (Cons g gs1)
  show ?case
    unfolding append_Cons validate_games_step
    by (simp add: Cons.IH split: sum.splits prod.splits)
qed

lemma count_game_cases:
  "count_game e key patterns g = Inr (dm, dt) \<Longrightarrow>
     dt = (if has_both g then 1 else 0) \<and> dm \<le> dt"
  by (cases key)
     (auto simp: count_game_def has_both_def split: option.splits if_splits)

lemma validate_games_total:
  "validate_games e key patterns gs m t = Inr (m', t') \<Longrightarrow>
     t' = t + length (filter has_both gs) \<and> m \<le> m' \<and> m' \<le> m + length (filter has_both gs)"
proof (induction gs arbitrary: m t)
  case Nil
  then show ?case by simp
next
  case (Cons g gs)
  from Cons.prems obtain dm dt where
    c: "count_game e key patterns g = Inr (dm, dt)" and
    r: "validate_games e key patterns gs (m + dm) (t + dt) = Inr (m', t')"
    unfolding validate_games_step by (auto split: sum.splits)
  from Cons.IH [OF r] count_game_cases [OF c] show ?case by auto
qed

lemma validate_games_no_records:
  "filter has_both gs = [] \<Longrightarrow> validate_games e key patterns gs m t = Inr (m, t)"
proof (induction gs)
  case Nil
  show ?case by simp
next
  case (Cons g gs)
  then have g: "\<not> has_both g" and "filter has_both gs = []"
    by (auto split: if_splits)
  from Cons.IH [OF this(2)] have "validate_games e key patterns gs m t = Inr (m, t)" .
  with g show ?case
    by (auto simp: has_both_def split: option.splits)
qed

lemma count_game_succeeds:
  "(\<forall>ts. has_both g \<longrightarrow> timestamp g = Some ts \<longrightarrow> fromisoformat e ts \<noteq> None) \<Longrightarrow>
     \<exists>d. count_game e key patterns g = Inr d"
  by (cases key)
     (auto simp: count_game_def has_both_def split: option.splits)

lemma validate_games_succeeds:
  "\<forall>g \<in> set gs. \<forall>ts. has_both g \<longrightarrow> timestamp g = Some ts \<longrightarrow> fromisoformat e ts \<noteq> None \<Longrightarrow>
     \<exists>r. validate_games e key patterns gs m t = Inr r"
proof (induction gs arbitrary: m t)
  case Nil
  show ?case by simp
next
  case (Cons g gs)
  from Cons.prems have "\<forall>ts. has_both g \<longrightarrow> timestamp g = Some ts \<longrightarrow> fromisoformat e ts \<noteq> None"
    by simp
  from count_game_succeeds [OF this] obtain d where
    d: "count_game e key patterns g = Inr d" by blast
  from Cons.prems have "\<forall>g \<in> set gs. \<forall>ts. has_both g \<longrightarrow> timestamp g = Some ts \<longrightarrow> fromisoformat e ts \<noteq> None"
    by simp
  from Cons.IH [OF this] show ?case
    unfolding validate_games_step d by (cases d) simp
qed

section \<open>The reported total and rate\<close>

lemma validate_group_no_records:
  "filter has_both validation_games = [] \<Longrightarrow>
     validate_group e key patterns validation_games =
       Inr \<lparr>vr_matches = 0, vr_total = 0, vr_success_rate = 0\<rparr>"
  by (simp add: validate_group_def validate_games_no_records)

lemma validate_groups_no_records:
  "filter has_both validation_games = [] \<Longrightarrow>
     validate_groups e groups validation_games =
       Inr (map (\<lambda>kp. (fst kp, \<lparr>vr_matches = 0, vr_total = 0, vr_success_rate = 0\<rparr>)) groups)"
  by (induction groups) (auto simp: validate_group_no_records)

lemma add_to_group_nonempty: "add_to_group k p groups \<noteq> []"
  by (cases groups) (auto split: if_splits)

lemma pattern_groups_snoc:
  "pattern_groups (found @ [p]) = add_to_group (key_of p) p (pattern_groups found)"
  by (simp add: pattern_groups_def)

lemma pattern_groups_nonempty: "found \<noteq> [] \<Longrightarrow> pattern_groups found \<noteq> []"
  by (cases found rule: rev_cases) (simp_all add: pattern_groups_snoc add_to_group_nonempty)


text \<open>
  C10. The total reported for a pattern group is the number of validation records that
  have both \<open>timestamp\<close> and \<open>serverSeed\<close>. A record with both fields whose time
  value is the empty string adds one to the total and nothing to the matches: with it
  in the slice the rate is the same number of matches over a total greater by one.
\<close>

theorem empty_time_value_counted:
  "(validate_group e key patterns validation_games = Inr r \<longrightarrow>
      vr_total r = length (filter has_both validation_games)) \<and>
   (timestamp g = Some ts \<and> serverSeed g = Some seed \<and> fromisoformat e ts = Some dt \<and>
    time_value e (fst key) dt g = Some [] \<and>
    validate_group e key patterns (gs1 @ gs2) = Inr r \<longrightarrow>
      validate_group e key patterns (gs1 @ g # gs2) =
        Inr \<lparr>vr_matches = vr_matches r, vr_total = vr_total r + 1,
             vr_success_rate = of_nat (vr_matches r) / of_nat (vr_total r + 1)\<rparr>)"
proof (rule conjI)
  show "validate_group e key patterns validation_games = Inr r \<longrightarrow>
      vr_total r = length (filter has_both validation_games)"
  proof
    assume "validate_group e key patterns validation_games = Inr r"
    then obtain m t where
      v: "validate_games e key patterns validation_games 0 0 = Inr (m, t)" and
      r: "vr_total r = t"
      by (auto simp: validate_group_def split: sum.splits)
    from validate_games_total [OF v] r show "vr_total r = length (filter has_both validation_games)"
      by simp
  qed
next
  show "timestamp g = Some ts \<and> serverSeed g = Some seed \<and> fromisoformat e ts = Some dt \<and>
    time_value e (fst key) dt g = Some [] \<and>
    validate_group e key patterns (gs1 @ gs2) = Inr r \<longrightarrow>
      validate_group e key patterns (gs1 @ g # gs2) =
        Inr \<lparr>vr_matches = vr_matches r, vr_total = vr_total r + 1,
             vr_success_rate = of_nat (vr_matches r) / of_nat (vr_total r + 1)\<rparr>"
  proof
    assume a: "timestamp g = Some ts \<and> serverSeed g = Some seed \<and> fromisoformat e ts = Some dt \<and>
      time_value e (fst key) dt g = Some [] \<and>
      validate_group e key patterns (gs1 @ gs2) = Inr r"
    then have c: "count_game e key patterns g = Inr (0, 1)"
      by (cases key) (simp add: count_game_def)
    from a obtain m t where
      v: "validate_games e key patterns (gs1 @ gs2) 0 0 = Inr (m, t)" and
      r: "vr_matches r = m" "vr_total r = t"
      by (auto simp: validate_group_def split: sum.splits)
    from v obtain m1 t1 where
      v1: "validate_games e key patterns gs1 0 0 = Inr (m1, t1)" and
      v2: "validate_games e key patterns gs2 m1 t1 = Inr (m, t)"
      unfolding validate_games_append by (auto split: sum.splits)
    from v2 obtain dm dt' where
      d: "validate_games e key patterns gs2 0 0 = Inr (dm, dt')" "m = m1 + dm" "t = t1 + dt'"
      by (subst (asm) validate_games_acc) (auto split: sum.splits)
    have "validate_games e key patterns gs2 m1 (t1 + 1) = Inr (m, t + 1)"
      by (subst validate_games_acc) (simp add: d)
    then have "validate_games e key patterns (gs1 @ g # gs2) 0 0 = Inr (m, t + 1)"
      unfolding validate_games_append v1 by (simp add: validate_games_step c del: validate_games.simps)
    then show "validate_group e key patterns (gs1 @ g # gs2) =
        Inr \<lparr>vr_matches = vr_matches r, vr_total = vr_total r + 1,
             vr_success_rate = of_nat (vr_matches r) / of_nat (vr_total r + 1)\<rparr>"
      by (simp add: validate_group_def r)
  qed
qed

text \<open>
  C4. When no record of the validation slice has both fields, the validator raises
  nothing and reports 0 matches, a total of 0 and the number 0 as the success rate.
\<close>

theorem zero_total_rate_zero:
  "filter has_both validation_games = [] \<Longrightarrow>
     validate_group e key patterns validation_games =
       Inr \<lparr>vr_matches = 0, vr_total = 0, vr_success_rate = 0\<rparr>"
  by (rule validate_group_no_records)

theorem zero_total_rate_zero_witness:
  "filter has_both [demo_game_no_seed] = [] \<and>
   validate_group demo_env (''date'', ''rugs.fun'', ''{}_salt'', SHA256, Exact) []
       [demo_game_no_seed] =
     Inr \<lparr>vr_matches = 0, vr_total = 0, vr_success_rate = 0\<rparr>"
proof -
  have f: "filter has_both [demo_game_no_seed] = []"
    by (simp add: has_both_def demo_game_no_seed_def)
  from zero_total_rate_zero [OF f] f show ?thesis by blast
qed

lemma demo_slices_no_seed:
  "sample_slice [demo_game0, demo_game_no_seed] 1 = [demo_game0]"
  "validation_slice [demo_game0, demo_game_no_seed] 1 = [demo_game_no_seed]"
  by (simp_all add: sample_slice_def validation_slice_def py_slice_to_def py_slice_def
      slice_bound_def)

text \<open>
  A run in which validation takes place and its slice holds one record, without
  \<open>serverSeed\<close>: every rate reported is the number 0, with a total of 0.
\<close>

theorem undefined_rate_counterexample:
  "\<exists>found results.
     search_games demo_env [demo_game0, demo_game_no_seed] 1 = Inr (Found found results) \<and>
     results \<noteq> [] \<and>
     (\<forall>kr \<in> set results. vr_total (snd kr) = 0 \<and> vr_success_rate (snd kr) = 0)"
proof -
  from demo_generation0_succeeds obtain found where
    found: "candidate_generation demo_env common_secrets salt_formats [demo_game0] = Inr found"
    by blast
  from demo_pattern0_found [OF found, of 0] have ne: "found \<noteq> []"
    by (auto simp: demo_pairs0)
  let ?results = "map (\<lambda>kp. (fst kp, \<lparr>vr_matches = 0, vr_total = 0, vr_success_rate = 0\<rparr>))
                      (pattern_groups found)"
  have f: "filter has_both [demo_game_no_seed] = []"
    by (simp add: has_both_def demo_game_no_seed_def)
  have "run_validation demo_env found [demo_game0, demo_game_no_seed] 1 = Inr ?results"
    using ne by (simp add: run_validation_def demo_slices_no_seed
        validate_groups_no_records [OF f])
  then have "search_games demo_env [demo_game0, demo_game_no_seed] 1 = Inr (Found found ?results)"
    by (simp add: search_games_def demo_slices_no_seed found)
  moreover have "?results \<noteq> []"
    using pattern_groups_nonempty [OF ne] by simp
  moreover have "\<forall>kr \<in> set ?results. vr_total (snd kr) = 0 \<and> vr_success_rate (snd kr) = 0"
    by auto
  ultimately show ?thesis by blast
qed

theorem empty_time_value_counted_witness:
  "length (filter has_both [demo_game_no_id]) = 1 \<and>
   vr_total \<lparr>vr_matches = 0, vr_total = 1, vr_success_rate = 0\<rparr>
     = length (filter has_both [demo_game_no_id]) \<and>
   validate_group demo_env (''game_id'', ''rug'', ''{}'', SHA256, Exact) [] [demo_game_no_id] =
     Inr \<lparr>vr_matches = 0, vr_total = 1, vr_success_rate = 0\<rparr>"
proof -
  let ?key = "(''game_id'', ''rug'', ''{}'', SHA256, Exact)"
  let ?r0 = "\<lparr>vr_matches = 0, vr_total = 0, vr_success_rate = 0\<rparr>"
  let ?r1 = "\<lparr>vr_matches = 0, vr_total = 1, vr_success_rate = 0\<rparr>"
  have h: "timestamp demo_game_no_id = Some ''2024-01-01T12:34:56'' \<and>
      serverSeed demo_game_no_id = Some demo_seed0 \<and>
      fromisoformat demo_env ''2024-01-01T12:34:56'' = Some demo_dt0 \<and>
      time_value demo_env (fst ?key) demo_dt0 demo_game_no_id = Some [] \<and>
      validate_group demo_env ?key [] ([] @ []) = Inr ?r0"
    by (simp add: demo_game_no_id_def demo_parse0 time_value_def game_id_value_def
        validate_group_def)
  have step: "validate_group demo_env ?key [] ([] @ demo_game_no_id # []) = Inr ?r1"
    using empty_time_value_counted [of demo_env ?key "[]" "[]" ?r0 demo_game_no_id
        "''2024-01-01T12:34:56''" demo_seed0 demo_dt0 "[]" "[]"] h
    by simp
  then have v: "validate_group demo_env ?key [] [demo_game_no_id] = Inr ?r1" by simp
  have "vr_total ?r1 = length (filter has_both [demo_game_no_id])"
    using empty_time_value_counted [of demo_env ?key "[]" "[demo_game_no_id]" ?r1] v
    by blast
  then show ?thesis using v by simp
qed

section \<open>Lines that do not parse\<close>

lemma collect_lines_acc:
  "collect_lines loads lines acc = acc @ List.map_filter (\<lambda>line. loads (strip line)) lines"
  by (induction lines arbitrary: acc) (auto simp: List.map_filter_simps split: option.splits)

lemma load_lines_acc:
  "load_lines loads lines acc =
     (if \<forall>line \<in> set lines. loads line \<noteq> None
      then (True, acc @ map (\<lambda>line. the (loads line)) lines)
      else (False, acc @ map (\<lambda>line. the (loads line))
                           (takeWhile (\<lambda>line. loads line \<noteq> None) lines)))"
  by (induction lines arbitrary: acc) (auto split: option.splits)

text \<open>
  The two loaders. The loader of the collector's analysis tools passes over exactly the
  lines that do not parse and loads the record of every other line, in order. The
  loader of the seed analyzer, on a \<open>.jsonl\<close> file, reports success exactly when
  every line parses, and then holds the record of every line, in order.
\<close>

lemma loaders_characterised:
  "load_collected_data loads (Some lines)
     = Some (List.map_filter (\<lambda>line. loads (strip line)) lines) \<and>
   (self_data_path st = Some path \<and> path \<noteq> [] \<and> endswith path ''.jsonl'' \<and>
    read_lines fs path = Some file_lines \<longrightarrow>
      fst (load_data fs st) = (\<forall>line \<in> set file_lines. json_loads fs line \<noteq> None) \<and>
      (fst (load_data fs st) \<longrightarrow>
         self_games (snd (load_data fs st)) = map (\<lambda>line. the (json_loads fs line)) file_lines))"
  by (simp add: load_collected_data_def collect_lines_acc load_data_def load_lines_acc)

lemma demo_paths:
  "endswith ''rugs_data.jsonl'' ''.jsonl''" "endswith ''clean.jsonl'' ''.jsonl''"
  by (simp_all add: endswith_def startswith_def)

lemma demo_loads:
  "demo_json_loads ''{a}'' = Some (demo_record ''a'')"
  "demo_json_loads ''{b}'' = Some (demo_record ''b'')"
  "demo_json_loads ''oops'' = None"
  by (simp_all add: demo_json_loads_def demo_record_def)

lemma load_data_clean_file:
  "load_data demo_io \<lparr>self_data_path = Some ''clean.jsonl'', self_games = []\<rparr>
     = (True, \<lparr>self_data_path = Some ''clean.jsonl'',
               self_games = [demo_record ''a'', demo_record ''b'']\<rparr>)"
proof -
  let ?st = "\<lparr>self_data_path = Some ''clean.jsonl'', self_games = []\<rparr>"
  have h: "self_data_path ?st = Some ''clean.jsonl'' \<and> ''clean.jsonl'' \<noteq> [] \<and>
      endswith ''clean.jsonl'' ''.jsonl'' \<and>
      read_lines demo_io ''clean.jsonl'' = Some [''{a}'', ''{b}'']"
    by (simp add: demo_paths demo_io_def)
  have all: "\<forall>line \<in> set [''{a}'', ''{b}'']. json_loads demo_io line \<noteq> None"
    by (simp add: demo_io_def demo_loads)
  from loaders_characterised [of demo_json_loads "[]" ?st "''clean.jsonl''" demo_io "[''{a}'', ''{b}'']"] h all
  have "fst (load_data demo_io ?st)"
    and "self_games (snd (load_data demo_io ?st)) = [demo_record ''a'', demo_record ''b'']"
    by (simp_all add: demo_io_def demo_loads)
  moreover have "self_data_path (snd (load_data demo_io ?st)) = Some ''clean.jsonl''"
    by (simp add: load_data_def demo_io_def demo_paths split: prod.splits)
  ultimately show ?thesis
    by (cases "load_data demo_io ?st") (auto intro: analyzer.equality)
qed

text \<open>
  C9. On a file with a line that does not parse between two that do, \<open>load_data\<close>
  stops at that line and reports failure, and the record of the last line is not
  loaded; \<open>load_collected_data\<close> on the same lines loads both records.
\<close>

theorem load_data_stops_at_malformed_line:
  "load_data demo_io \<lparr>self_data_path = Some ''rugs_data.jsonl'', self_games = []\<rparr>
     = (False, \<lparr>self_data_path = Some ''rugs_data.jsonl'', self_games = [demo_record ''a'']\<rparr>) \<and>
   load_collected_data demo_json_loads (Some [''{a}'', ''oops'', ''{b}''])
     = Some [demo_record ''a'', demo_record ''b'']"
  by (simp add: load_data_def demo_io_def demo_paths demo_loads load_collected_data_def
      strip_def isspace_def)

section \<open>Pattern groups and their validation\<close>

lemma add_to_group_map_of:
  "map_of (add_to_group k p groups) k' =
     (if k' = k then Some (case map_of groups k of None \<Rightarrow> [p] | Some ps \<Rightarrow> ps @ [p])
      else map_of groups k')"
  by (induction groups) auto

lemma pattern_groups_map_of:
  "map_of (pattern_groups found) k =
     (if filter (\<lambda>p. key_of p = k) found = [] then None
      else Some (filter (\<lambda>p. key_of p = k) found))"
proof (induction found arbitrary: k rule: rev_induct)
  case Nil
  show ?case by (simp add: pattern_groups_def)
next
  case (snoc p found)
  show ?case
    unfolding pattern_groups_snoc add_to_group_map_of
    by (simp add: snoc.IH)
qed

lemma validate_groups_map_of:
  "validate_groups e groups vg = Inr results \<Longrightarrow> map_of groups k = Some ps \<Longrightarrow>
     \<exists>r. validate_group e k ps vg = Inr r \<and> map_of results k = Some r"
proof (induction groups arbitrary: results)
  case Nil
  then show ?case by simp
next
  case (Cons kp groups)
  obtain k' ps' where kp: "kp = (k', ps')" by (cases kp)
  from Cons.prems(1) obtain r rs where
    r: "validate_group e k' ps' vg = Inr r" and
    rs: "validate_groups e groups vg = Inr rs" and
    res: "results = (k', r) # rs"
    by (auto simp: kp split: sum.splits)
  show ?case
  proof (cases "k = k'")
    case True
    with Cons.prems(2) kp have "ps = ps'" by simp
    with True r res show ?thesis by simp
  next
    case False
    with Cons.prems(2) kp have "map_of groups k = Some ps" by simp
    from Cons.IH [OF rs this] False res show ?thesis by simp
  qed
qed

lemma validate_group_succeeds:
  assumes "\<forall>g \<in> set vg. \<forall>ts. has_both g \<longrightarrow> timestamp g = Some ts \<longrightarrow> fromisoformat e ts \<noteq> None"
  shows "\<exists>r. validate_group e k ps vg = Inr r"
proof -
  from validate_games_succeeds [OF assms] obtain mt where
    "validate_games e k ps vg 0 0 = Inr mt" by blast
  then show ?thesis by (cases mt) (simp add: validate_group_def)
qed

lemma validate_groups_succeeds:
  assumes "\<forall>g \<in> set vg. \<forall>ts. has_both g \<longrightarrow> timestamp g = Some ts \<longrightarrow> fromisoformat e ts \<noteq> None"
  shows "\<exists>results. validate_groups e groups vg = Inr results"
proof (induction groups)
  case Nil
  show ?case by simp
next
  case (Cons kp groups)
  obtain k ps where kp: "kp = (k, ps)" by (cases kp)
  from validate_group_succeeds [OF assms] obtain r where
    "validate_group e k ps vg = Inr r" by blast
  with Cons.IH show ?case by (auto simp: kp)
qed

lemma try_patterns_salt_only:
  assumes "\<forall>p \<in> set ps. validation_input p time_val salt = salt"
    and "digest e ht salt \<noteq> seed"
  shows "\<not> try_patterns e ht Exact seed time_val salt ps"
  using assms by (induction ps) (auto simp: Let_def)

section \<open>What the validator hashes\<close>

lemma demo_parse1: "fromisoformat demo_env ''2024-01-02T12:34:56'' = Some demo_dt1"
  by (simp add: demo_env_def demo_fromisoformat_def digit_val_def demo_dt1_def)

lemma demo_date1: "time_value demo_env ''date'' demo_dt1 demo_game1 = Some ''20240102''"
  by (simp add: time_value_def demo_dt1_def strftime_Y_def two_digits_def zfill_def
      str_nat.simps digit_char_def)

lemma demo_date0_unique:
  "(''date'', val) \<in> set (time_formats demo_env demo_dt0 g) \<Longrightarrow> val = ''20240101''"
  by (simp add: time_formats_def time_encodings_def demo_dt0_def strftime_Y_def
      two_digits_def zfill_def str_nat.simps digit_char_def)

lemma demo_inputs0_fall_through:
  "\<forall>x \<in> set (test_inputs ''20240101'' ''rugs.fun_salt'').
     \<not> contains ''TimeSecret'' x \<and> \<not> contains ''SecretTime'' x \<and> x \<noteq> ''date''"
  by code_simp

lemma demo_salt_digest: "digest demo_env SHA256 ''rugs.fun_salt'' \<noteq> demo_seed1"
  by code_simp

lemma demo_holds1:
  "comparison_holds demo_env demo_seed1 (''20240102'' @ str_format ''{}_salt'' ''rugs.fun'')
     (SHA256, Exact)"
  by code_simp

lemma demo_slices1:
  "sample_slice [demo_game0, demo_game1] 1 = [demo_game0]"
  "validation_slice [demo_game0, demo_game1] 1 = [demo_game1]"
  by (simp_all add: sample_slice_def validation_slice_def py_slice_to_def py_slice_def
      slice_bound_def)

text \<open>
  C3. The pattern found on \<open>demo_game0\<close> hashes the date followed by the salt with
  SHA-256, exact. The validation record \<open>demo_game1\<close> satisfies the same condition.
  The validator hashes the salt alone for it, and reports 0 matches out of 1.
\<close>

theorem validation_hashes_salt_alone:
  "comparison_holds demo_env demo_seed1 (''20240102'' @ str_format ''{}_salt'' ''rugs.fun'')
     (SHA256, Exact) \<and>
   time_value demo_env ''date'' demo_dt1 demo_game1 = Some ''20240102'' \<and>
   (\<exists>found results.
      search_games demo_env [demo_game0, demo_game1] 1 = Inr (Found found results) \<and>
      mk_pattern 0 demo_seed0 ''date'' ''rugs.fun'' ''{}_salt'' ''20240101rugs.fun_salt''
        SHA256 Exact \<in> set found \<and>
      map_of results (''date'', ''rugs.fun'', ''{}_salt'', SHA256, Exact)
        = Some \<lparr>vr_matches = 0, vr_total = 1, vr_success_rate = 0\<rparr>)"
proof -
  let ?key = "(''date'', ''rugs.fun'', ''{}_salt'', SHA256, Exact)"
  let ?p0 = "mk_pattern 0 demo_seed0 ''date'' ''rugs.fun'' ''{}_salt'' ''20240101rugs.fun_salt''
        SHA256 Exact"
  from demo_generation0_succeeds obtain found where
    found: "candidate_generation demo_env common_secrets salt_formats [demo_game0] = Inr found"
    by blast
  from demo_pattern0_found [OF found, of 0] have p0: "?p0 \<in> set found"
    by (simp add: demo_pairs0)
  let ?ps = "filter (\<lambda>p. key_of p = ?key) found"
  have "key_of ?p0 = ?key" by (simp add: key_of_def mk_pattern_def)
  with p0 have ne: "?ps \<noteq> []"
    unfolding filter_empty_conv by blast
  then have grp: "map_of (pattern_groups found) ?key = Some ?ps"
    by (simp add: pattern_groups_map_of)
  have fall: "validation_input p ''20240102'' ''rugs.fun_salt'' = ''rugs.fun_salt''"
    if p: "p \<in> set ?ps" for p
  proof -
    from p have pf: "p \<in> set found" and k: "key_of p = ?key" by simp_all
    from pf obtain j ts seed dt key val secret fmt x where
      j: "j < length (extract_pairs [demo_game0])" "extract_pairs [demo_game0] ! j = (ts, seed)"
      and dt: "fromisoformat demo_env ts = Some dt"
      and kv: "(key, val) \<in> set (time_formats demo_env dt (last [demo_game0]))"
      and x: "x \<in> set (test_inputs val (str_format fmt secret))"
      and mem: "p \<in> set (check_input demo_env j seed key secret fmt x)"
      unfolding candidate_generation_mem [OF found] by blast
    from j have "ts = ''2024-01-01T12:34:56''" by (simp add: demo_pairs0)
    with dt have dt0: "dt = demo_dt0" by (simp add: demo_parse0)
    from check_input_fields [OF mem] k have
      f: "key = ''date''" "secret = ''rugs.fun''" "fmt = ''{}_salt''" "pat_input p = x"
      "pat_time_format p = ''date''"
      by (simp_all add: key_of_def)
    from kv dt0 f(1) have "val = ''20240101''" by (simp add: demo_date0_unique)
    with x f have "x \<in> set (test_inputs ''20240101'' ''rugs.fun_salt'')" by simp
    with demo_inputs0_fall_through have
      "\<not> contains ''TimeSecret'' x \<and> \<not> contains ''SecretTime'' x \<and> x \<noteq> ''date''" by blast
    with f show ?thesis by (simp add: validation_input_def)
  qed
  have "\<not> try_patterns demo_env SHA256 Exact demo_seed1 ''20240102'' ''rugs.fun_salt'' ?ps"
    by (rule try_patterns_salt_only) (use fall demo_salt_digest in blast)+
  then have "count_game demo_env ?key ?ps demo_game1 = Inr (0, 1)"
    by (simp add: count_game_def demo_game1_def demo_parse1
        demo_date1 [unfolded demo_game1_def])
  then have "validate_games demo_env ?key ?ps [demo_game1] 0 0 = Inr (0, 1)"
    by (simp add: validate_games_step del: validate_games.simps(2))
  then have vg: "validate_group demo_env ?key ?ps [demo_game1]
      = Inr \<lparr>vr_matches = 0, vr_total = 1, vr_success_rate = 0\<rparr>"
    by (simp add: validate_group_def)
  have "\<exists>results. validate_groups demo_env (pattern_groups found) [demo_game1] = Inr results"
    by (rule validate_groups_succeeds) (simp add: demo_game1_def demo_parse1)
  then obtain results where
    res: "validate_groups demo_env (pattern_groups found) [demo_game1] = Inr results" by blast
  from validate_groups_map_of [OF res grp] vg have
    m: "map_of results ?key = Some \<lparr>vr_matches = 0, vr_total = 1, vr_success_rate = 0\<rparr>"
    by simp
  from p0 have "found \<noteq> []" by auto
  then have "run_validation demo_env found [demo_game0, demo_game1] 1 = Inr results"
    by (simp add: run_validation_def demo_slices1 res)
  then have "search_games demo_env [demo_game0, demo_game1] 1 = Inr (Found found results)"
    by (simp add: search_games_def demo_slices1 found)
  with p0 m demo_holds1 demo_date1 show ?thesis by blast
qed

section \<open>A timestamp that does not parse\<close>



section \<open>What the patterns depend on\<close>

lemma check_input_digests:
  "md5_hex e1 = md5_hex e2 \<Longrightarrow> sha1_hex e1 = sha1_hex e2 \<Longrightarrow> sha256_hex e1 = sha256_hex e2 \<Longrightarrow>
     check_input e1 = check_input e2"
  by (intro ext) (simp add: check_input_def)

lemma for_time_format_digests:
  "md5_hex e1 = md5_hex e2 \<Longrightarrow> sha1_hex e1 = sha1_hex e2 \<Longrightarrow> sha256_hex e1 = sha256_hex e2 \<Longrightarrow>
     for_time_format e1 = for_time_format e2"
proof -
  assume d: "md5_hex e1 = md5_hex e2" "sha1_hex e1 = sha1_hex e2" "sha256_hex e1 = sha256_hex e2"
  have a: "for_salt_format e1 = for_salt_format e2"
    by (intro ext) (simp add: for_salt_format_def check_input_digests [OF d])
  have b: "for_secret e1 = for_secret e2"
    by (intro ext) (simp add: for_secret_def a)
  show ?thesis
    by (intro ext) (simp add: for_time_format_def b)
qed

lemma for_time_format_key:
  "p \<in> set (for_time_format e secrets salts i seed kv) \<Longrightarrow> pat_time_format p = fst kv"
  unfolding set_for_time_format set_for_secret set_for_salt_format
  by (auto split: if_splits dest: check_input_fields)

lemma filter_for_time_format:
  "filter (\<lambda>p. P (pat_time_format p)) (for_time_format e secrets salts i seed kv) =
     (if P (fst kv) then for_time_format e secrets salts i seed kv else [])"
proof (cases "P (fst kv)")
  case True
  then have "\<forall>p \<in> set (for_time_format e secrets salts i seed kv). P (pat_time_format p)"
    by (simp add: for_time_format_key)
  with True show ?thesis by simp
next
  case False
  then have "\<forall>p \<in> set (for_time_format e secrets salts i seed kv). \<not> P (pat_time_format p)"
    by (simp add: for_time_format_key)
  with False show ?thesis by (simp add: filter_False)
qed

lemma concat_map_if_filter:
  "concat (map (\<lambda>x. if Q x then f x else []) xs) = concat (map f (filter Q xs))"
  by (induction xs) simp_all

lemma filter_for_record:
  "filter (\<lambda>p. P (pat_time_format p)) (for_record e secrets salts game i seed dt) =
     concat (map (for_time_format e secrets salts i seed)
                 (filter (\<lambda>kv. P (fst kv)) (time_formats e dt game)))"
  by (simp add: for_record_def filter_concat comp_def filter_for_time_format
      concat_map_if_filter)

text \<open>
  The patterns of the time formats selected by \<open>P\<close> are the same in two runs whose
  libraries have the same digests and, on the timestamps of the pairs, the same parse
  and the same table entries for these time formats.
\<close>

lemma generate_loop_agree:
  assumes "md5_hex e1 = md5_hex e2" "sha1_hex e1 = sha1_hex e2" "sha256_hex e1 = sha256_hex e2"
    and "\<forall>ts seed. (ts, seed) \<in> set pairs \<longrightarrow>
           fromisoformat e1 ts = fromisoformat e2 ts \<and>
           (\<forall>dt. fromisoformat e1 ts = Some dt \<longrightarrow>
              filter (\<lambda>kv. P (fst kv)) (time_formats e1 dt g1)
                = filter (\<lambda>kv. P (fst kv)) (time_formats e2 dt g2))"
  shows "map_sum id (filter (\<lambda>p. P (pat_time_format p)))
           (generate_loop e1 secrets salts g1 i pairs)
       = map_sum id (filter (\<lambda>p. P (pat_time_format p)))
           (generate_loop e2 secrets salts g2 i pairs)"
  using assms(4)
proof (induction pairs arbitrary: i)
  case Nil
  show ?case by simp
next
  case (Cons a pairs)
  obtain ts seed where a: "a = (ts, seed)" by (cases a)
  from Cons.prems have parse: "fromisoformat e1 ts = fromisoformat e2 ts"
    and tf: "\<And>dt. fromisoformat e1 ts = Some dt \<Longrightarrow>
              filter (\<lambda>kv. P (fst kv)) (time_formats e1 dt g1)
                = filter (\<lambda>kv. P (fst kv)) (time_formats e2 dt g2)"
    and rest: "\<forall>ts seed. (ts, seed) \<in> set pairs \<longrightarrow>
           fromisoformat e1 ts = fromisoformat e2 ts \<and>
           (\<forall>dt. fromisoformat e1 ts = Some dt \<longrightarrow>
              filter (\<lambda>kv. P (fst kv)) (time_formats e1 dt g1)
                = filter (\<lambda>kv. P (fst kv)) (time_formats e2 dt g2))"
    by (auto simp: a)
  note IH = Cons.IH [OF rest, of "Suc i"]
  show ?case
  proof (cases "fromisoformat e1 ts")
    case None
    with parse show ?thesis by (simp add: a)
  next
    case (Some dt)
    have rec: "filter (\<lambda>p. P (pat_time_format p)) (for_record e1 secrets salts g1 i seed dt)
        = filter (\<lambda>p. P (pat_time_format p)) (for_record e2 secrets salts g2 i seed dt)"
      unfolding filter_for_record tf [OF Some] for_time_format_digests [OF assms(1-3)] ..
    from Some parse have p2: "fromisoformat e2 ts = Some dt" by simp
    show ?thesis
      using IH rec
      by (cases "generate_loop e1 secrets salts g1 (Suc i) pairs";
          cases "generate_loop e2 secrets salts g2 (Suc i) pairs")
         (simp_all add: a Some p2)
  qed
qed


lemma time_formats_not_epoch:
  "filter (\<lambda>kv. fst kv \<noteq> ''epoch'' \<and> fst kv \<noteq> ''epoch_ms'') (time_formats e dt game)
     = drop 2 (time_encodings e dt) @ [(''game_id'', game_id_value game)]"
  by (simp add: time_formats_def time_encodings_def)

lemma drop2_time_encodings:
  "drop 2 (time_encodings e1 dt) = drop 2 (time_encodings e2 dt)"
  by (simp add: time_encodings_def)

lemma candidate_generation_agree:
  assumes "md5_hex e1 = md5_hex e2" "sha1_hex e1 = sha1_hex e2" "sha256_hex e1 = sha256_hex e2"
    and "extract_pairs s1 = extract_pairs s2"
    and "\<forall>ts seed. (ts, seed) \<in> set (extract_pairs s1) \<longrightarrow>
           fromisoformat e1 ts = fromisoformat e2 ts \<and>
           (\<forall>dt. fromisoformat e1 ts = Some dt \<longrightarrow>
              filter (\<lambda>kv. P (fst kv)) (time_formats e1 dt (last s1))
                = filter (\<lambda>kv. P (fst kv)) (time_formats e2 dt (last s2)))"
  shows "map_sum id (filter (\<lambda>p. P (pat_time_format p)))
           (candidate_generation e1 secrets salts s1)
       = map_sum id (filter (\<lambda>p. P (pat_time_format p)))
           (candidate_generation e2 secrets salts s2)"
proof -
  have e: "extract_pairs s = [] \<Longrightarrow> candidate_generation e' secrets salts s = Inr []" for e' s
    by (simp add: candidate_generation_def)
  show ?thesis
  proof (cases "extract_pairs s1 = []")
    case True
    with assms(4) show ?thesis by (simp add: e)
  next
    case False
    with assms(4) have "s1 \<noteq> []" "s2 \<noteq> []"
      by (auto simp: extract_pairs_def)
    then show ?thesis
      using generate_loop_agree [OF assms(1-3), of "extract_pairs s1" P "last s1" "last s2"
          secrets salts 0] assms(4,5)
      by (simp add: candidate_generation_def)
  qed
qed



text \<open>
  C8. Candidate generation reads, besides the sample and the two tables, the library:
  the digests, and for each timestamp of the sample its parse and its epoch seconds and
  milliseconds, which follow the local time zone. Two runs whose libraries agree on
  these return the same outcome. Two runs that differ in the epoch values only, as runs
  in two time zones do, return the same patterns for every time format other than
  \<open>epoch\<close> and \<open>epoch_ms\<close>.
\<close>

theorem generation_depends_on:
  "md5_hex e1 = md5_hex e2 \<and> sha1_hex e1 = sha1_hex e2 \<and> sha256_hex e1 = sha256_hex e2 \<and>
   (\<forall>g \<in> set sample. \<forall>ts. has_both g \<longrightarrow> timestamp g = Some ts \<longrightarrow>
        fromisoformat e1 ts = fromisoformat e2 ts) \<longrightarrow>
   ((\<forall>g \<in> set sample. \<forall>ts dt. has_both g \<longrightarrow> timestamp g = Some ts \<longrightarrow>
        fromisoformat e1 ts = Some dt \<longrightarrow>
        epoch_seconds e1 dt = epoch_seconds e2 dt \<and> epoch_millis e1 dt = epoch_millis e2 dt) \<longrightarrow>
      candidate_generation e1 secrets salts sample
        = candidate_generation e2 secrets salts sample) \<and>
   map_sum id (filter (\<lambda>p. pat_time_format p \<noteq> ''epoch'' \<and> pat_time_format p \<noteq> ''epoch_ms''))
       (candidate_generation e1 secrets salts sample)
     = map_sum id (filter (\<lambda>p. pat_time_format p \<noteq> ''epoch'' \<and> pat_time_format p \<noteq> ''epoch_ms''))
         (candidate_generation e2 secrets salts sample)"
proof (intro impI)
  assume a: "md5_hex e1 = md5_hex e2 \<and> sha1_hex e1 = sha1_hex e2 \<and>
    sha256_hex e1 = sha256_hex e2 \<and>
    (\<forall>g \<in> set sample. \<forall>ts. has_both g \<longrightarrow> timestamp g = Some ts \<longrightarrow>
        fromisoformat e1 ts = fromisoformat e2 ts)"
  then have d: "md5_hex e1 = md5_hex e2" "sha1_hex e1 = sha1_hex e2"
    "sha256_hex e1 = sha256_hex e2" by simp_all
  from a have parse: "fromisoformat e1 ts = fromisoformat e2 ts"
    if "(ts, seed) \<in> set (extract_pairs sample)" for ts seed
    using that by (auto simp: extract_pairs_mem has_both_def)
  show "((\<forall>g \<in> set sample. \<forall>ts dt. has_both g \<longrightarrow> timestamp g = Some ts \<longrightarrow>
        fromisoformat e1 ts = Some dt \<longrightarrow>
        epoch_seconds e1 dt = epoch_seconds e2 dt \<and> epoch_millis e1 dt = epoch_millis e2 dt) \<longrightarrow>
      candidate_generation e1 secrets salts sample
        = candidate_generation e2 secrets salts sample) \<and>
   map_sum id (filter (\<lambda>p. pat_time_format p \<noteq> ''epoch'' \<and> pat_time_format p \<noteq> ''epoch_ms''))
       (candidate_generation e1 secrets salts sample)
     = map_sum id (filter (\<lambda>p. pat_time_format p \<noteq> ''epoch'' \<and> pat_time_format p \<noteq> ''epoch_ms''))
         (candidate_generation e2 secrets salts sample)"
  proof (intro conjI impI)
    assume ep: "\<forall>g \<in> set sample. \<forall>ts dt. has_both g \<longrightarrow> timestamp g = Some ts \<longrightarrow>
        fromisoformat e1 ts = Some dt \<longrightarrow>
        epoch_seconds e1 dt = epoch_seconds e2 dt \<and> epoch_millis e1 dt = epoch_millis e2 dt"
    have tf: "time_formats e1 dt (last sample) = time_formats e2 dt (last sample)"
      if "(ts, seed) \<in> set (extract_pairs sample)" "fromisoformat e1 ts = Some dt"
      for ts seed dt
    proof -
      from that ep have "epoch_seconds e1 dt = epoch_seconds e2 dt \<and>
          epoch_millis e1 dt = epoch_millis e2 dt"
        by (auto simp: extract_pairs_mem has_both_def)
      then show ?thesis by (simp add: time_formats_def time_encodings_def)
    qed
    have "map_sum id (filter (\<lambda>p. (\<lambda>k. True) (pat_time_format p)))
           (candidate_generation e1 secrets salts sample)
       = map_sum id (filter (\<lambda>p. (\<lambda>k. True) (pat_time_format p)))
           (candidate_generation e2 secrets salts sample)"
      by (rule candidate_generation_agree [OF d]) (use parse tf in auto)
    moreover have "map_sum id (filter (\<lambda>p. True)) r = r" for r :: "error + pattern list"
      by (cases r) simp_all
    ultimately show "candidate_generation e1 secrets salts sample
        = candidate_generation e2 secrets salts sample"
      by simp
  next
    show "map_sum id (filter (\<lambda>p. pat_time_format p \<noteq> ''epoch'' \<and> pat_time_format p \<noteq> ''epoch_ms''))
       (candidate_generation e1 secrets salts sample)
     = map_sum id (filter (\<lambda>p. pat_time_format p \<noteq> ''epoch'' \<and> pat_time_format p \<noteq> ''epoch_ms''))
         (candidate_generation e2 secrets salts sample)"
      by (rule candidate_generation_agree [OF d])
         (use parse in \<open>auto simp: time_formats_not_epoch drop2_time_encodings [of e1 _ e2]\<close>)
  qed
qed

section \<open>Runs in two time zones\<close>

lemma demo_tz_fields:
  "md5_hex demo_env_tz = md5_hex demo_env" "sha1_hex demo_env_tz = sha1_hex demo_env"
  "sha256_hex demo_env_tz = sha256_hex demo_env"
  "fromisoformat demo_env_tz = fromisoformat demo_env"
  by (simp_all add: demo_env_tz_def)

lemma demo_dst_fields:
  "md5_hex demo_env_dst = md5_hex demo_env" "sha1_hex demo_env_dst = sha1_hex demo_env"
  "sha256_hex demo_env_dst = sha256_hex demo_env"
  "fromisoformat demo_env_dst = fromisoformat demo_env"
  by (simp_all add: demo_env_dst_def)

lemma demo_dst_winter:
  "epoch_seconds demo_env_dst demo_dt0 = epoch_seconds demo_env demo_dt0"
  "epoch_millis demo_env_dst demo_dt0 = epoch_millis demo_env demo_dt0"
  by (simp_all add: demo_env_dst_def demo_env_def summer_offset_def demo_dt0_def)

lemma time_formats_epoch:
  "(''epoch'', val) \<in> set (time_formats e dt g) \<longleftrightarrow> val = str_int (epoch_seconds e dt)"
  by (auto simp: time_formats_def time_encodings_def)

lemma demo_epoch0: "str_int (epoch_seconds demo_env demo_dt0) = ''1704112496''"
  by (simp add: demo_env_def demo_epoch_seconds_def days_from_civil_def demo_dt0_def
      str_int_def str_nat.simps digit_char_def)

lemma demo_epoch0_tz: "str_int (epoch_seconds demo_env_tz demo_dt0) = ''1704108896''"
  by (simp add: demo_env_tz_def demo_epoch_seconds_def days_from_civil_def demo_dt0_def
      str_int_def str_nat.simps digit_char_def)

lemma demo_matching_epoch:
  "matching_comparisons demo_env demo_seed_epoch ''1704112496rug''
     = [(SHA256, Exact), (SHA256, Partial16)]"
  by code_simp

lemma demo_tz_no_match:
  "\<forall>x \<in> set (test_inputs ''1704108896'' (str_format ''{}'' ''rug'')).
     matching_comparisons demo_env demo_seed_epoch x = []"
  by code_simp

lemma demo_parse0_tz: "fromisoformat demo_env_tz ''2024-01-01T12:34:56'' = Some demo_dt0"
  by (simp add: demo_tz_fields demo_parse0)

lemma demo_pairs_epoch:
  "extract_pairs [demo_game_epoch] = [(''2024-01-01T12:34:56'', demo_seed_epoch)]"
  by (simp add: extract_pairs_def has_both_def demo_game_epoch_def)

text \<open>
  The seed of \<open>demo_game_epoch\<close> is the digest of its epoch seconds in the first time
  zone followed by a salt. The run in that time zone returns a pattern of the group
  (\<open>epoch\<close>, \<open>rug\<close>, \<open>{}\<close>, SHA-256, exact); the run one time zone east, on the same
  sample with the same tables, returns none.
\<close>

theorem time_zone_changes_patterns_counterexample:
  "\<exists>found1 found2.
     candidate_generation demo_env common_secrets salt_formats [demo_game_epoch] = Inr found1 \<and>
     candidate_generation demo_env_tz common_secrets salt_formats [demo_game_epoch] = Inr found2 \<and>
     (\<exists>p \<in> set found1. key_of p = (''epoch'', ''rug'', ''{}'', SHA256, Exact)) \<and>
     (\<forall>p \<in> set found2. key_of p \<noteq> (''epoch'', ''rug'', ''{}'', SHA256, Exact))"
proof -
  let ?key = "(''epoch'', ''rug'', ''{}'', SHA256, Exact)"
  let ?p = "mk_pattern 0 demo_seed_epoch ''epoch'' ''rug'' ''{}'' ''1704112496rug'' SHA256 Exact"
  have "\<exists>found. candidate_generation demo_env common_secrets salt_formats [demo_game_epoch]
      = Inr found"
    by (rule candidate_generation_succeeds) (simp add: demo_game_epoch_def demo_parse0)
  then obtain found1 where
    f1: "candidate_generation demo_env common_secrets salt_formats [demo_game_epoch] = Inr found1"
    by blast
  have "\<exists>found. candidate_generation demo_env_tz common_secrets salt_formats [demo_game_epoch]
      = Inr found"
    by (rule candidate_generation_succeeds) (simp add: demo_game_epoch_def demo_parse0_tz)
  then obtain found2 where
    f2: "candidate_generation demo_env_tz common_secrets salt_formats [demo_game_epoch] = Inr found2"
    by blast
  have pairs: "0 < length (extract_pairs [demo_game_epoch])"
    "extract_pairs [demo_game_epoch] ! 0 = (''2024-01-01T12:34:56'', demo_seed_epoch)"
    by (simp_all add: demo_pairs_epoch)
  have kv: "(''epoch'', ''1704112496'')
      \<in> set (time_formats demo_env demo_dt0 (last [demo_game_epoch]))"
    by (simp add: time_formats_epoch demo_epoch0)
  have s: "''rug'' \<in> set common_secrets" "''{}'' \<in> set salt_formats" "''1704112496'' \<noteq> []"
    by (simp_all add: common_secrets_def salt_formats_def)
  have x: "''1704112496rug'' \<in> set (test_inputs ''1704112496'' (str_format ''{}'' ''rug''))"
    by (simp add: test_inputs_def)
  have c: "?p \<in> set (check_input demo_env 0 demo_seed_epoch ''epoch'' ''rug'' ''{}''
                 ''1704112496rug'')"
    unfolding check_input_take1 by (simp add: demo_matching_epoch)
  have "?p \<in> set found1"
    unfolding candidate_generation_mem [OF f1]
    using pairs demo_parse0 kv s x c by blast
  moreover have "key_of ?p = ?key" by (simp add: key_of_def mk_pattern_def)
  ultimately have one: "\<exists>p \<in> set found1. key_of p = ?key" by blast
  have two: "key_of p \<noteq> ?key" if p: "p \<in> set found2" for p
  proof
    assume k: "key_of p = ?key"
    from p obtain j ts seed dt key val secret fmt x where
      j: "j < length (extract_pairs [demo_game_epoch])"
        "extract_pairs [demo_game_epoch] ! j = (ts, seed)"
      and dt: "fromisoformat demo_env_tz ts = Some dt"
      and kv: "(key, val) \<in> set (time_formats demo_env_tz dt (last [demo_game_epoch]))"
      and x: "x \<in> set (test_inputs val (str_format fmt secret))"
      and mem: "p \<in> set (check_input demo_env_tz j seed key secret fmt x)"
      unfolding candidate_generation_mem [OF f2] by blast
    from j have ts: "ts = ''2024-01-01T12:34:56''" and seed: "seed = demo_seed_epoch"
      by (simp_all add: demo_pairs_epoch)
    from dt ts have dt0: "dt = demo_dt0" by (simp add: demo_parse0_tz)
    from check_input_fields [OF mem] k have
      f: "key = ''epoch''" "secret = ''rug''" "fmt = ''{}''"
      by (simp_all add: key_of_def)
    from kv dt0 f(1) have "val = ''1704108896''"
      by (simp add: time_formats_epoch demo_epoch0_tz)
    with x f have "x \<in> set (test_inputs ''1704108896'' (str_format ''{}'' ''rug''))" by simp
    with demo_tz_no_match have "matching_comparisons demo_env seed x = []"
      by (simp add: seed)
    then have "check_input demo_env j seed key secret fmt x = []"
      by (simp add: check_input_take1)
    with mem show False
      by (simp add: check_input_digests [OF demo_tz_fields(1-3)])
  qed
  from f1 f2 one two show ?thesis by blast
qed

theorem generation_depends_on_witness:
  "candidate_generation demo_env common_secrets salt_formats [demo_game_epoch]
     = candidate_generation demo_env_dst common_secrets salt_formats [demo_game_epoch] \<and>
   map_sum id (filter (\<lambda>p. pat_time_format p \<noteq> ''epoch'' \<and> pat_time_format p \<noteq> ''epoch_ms''))
       (candidate_generation demo_env common_secrets salt_formats [demo_game_epoch])
     = map_sum id (filter (\<lambda>p. pat_time_format p \<noteq> ''epoch'' \<and> pat_time_format p \<noteq> ''epoch_ms''))
         (candidate_generation demo_env_tz common_secrets salt_formats [demo_game_epoch])"
proof -
  let ?sample = "[demo_game_epoch]"
  have ts: "\<forall>g \<in> set ?sample. \<forall>ts. has_both g \<longrightarrow> timestamp g = Some ts \<longrightarrow>
      ts = ''2024-01-01T12:34:56''"
    by (simp add: demo_game_epoch_def)
  have h_dst: "md5_hex demo_env = md5_hex demo_env_dst \<and> sha1_hex demo_env = sha1_hex demo_env_dst \<and>
      sha256_hex demo_env = sha256_hex demo_env_dst \<and>
      (\<forall>g \<in> set ?sample. \<forall>ts. has_both g \<longrightarrow> timestamp g = Some ts \<longrightarrow>
          fromisoformat demo_env ts = fromisoformat demo_env_dst ts)"
    by (simp add: demo_dst_fields)
  have h_ep: "\<forall>g \<in> set ?sample. \<forall>ts dt. has_both g \<longrightarrow> timestamp g = Some ts \<longrightarrow>
        fromisoformat demo_env ts = Some dt \<longrightarrow>
        epoch_seconds demo_env dt = epoch_seconds demo_env_dst dt \<and>
        epoch_millis demo_env dt = epoch_millis demo_env_dst dt"
    using ts by (auto simp: demo_parse0 demo_dst_winter)
  have h_tz: "md5_hex demo_env = md5_hex demo_env_tz \<and> sha1_hex demo_env = sha1_hex demo_env_tz \<and>
      sha256_hex demo_env = sha256_hex demo_env_tz \<and>
      (\<forall>g \<in> set ?sample. \<forall>ts. has_both g \<longrightarrow> timestamp g = Some ts \<longrightarrow>
          fromisoformat demo_env ts = fromisoformat demo_env_tz ts)"
    by (simp add: demo_tz_fields)
  from generation_depends_on [of demo_env demo_env_dst ?sample common_secrets salt_formats]
    h_dst h_ep
  have a: "candidate_generation demo_env common_secrets salt_formats ?sample
     = candidate_generation demo_env_dst common_secrets salt_formats ?sample"
    by blast
  from generation_depends_on [of demo_env demo_env_tz ?sample common_secrets salt_formats] h_tz
  have b: "map_sum id (filter (\<lambda>p. pat_time_format p \<noteq> ''epoch'' \<and> pat_time_format p \<noteq> ''epoch_ms''))
       (candidate_generation demo_env common_secrets salt_formats ?sample)
     = map_sum id (filter (\<lambda>p. pat_time_format p \<noteq> ''epoch'' \<and> pat_time_format p \<noteq> ''epoch_ms''))
         (candidate_generation demo_env_tz common_secrets salt_formats ?sample)"
    by blast
  from a b show ?thesis by (rule conjI)
qed

end
